theory Spec2Isabelle
  imports Complex_Main "HOL-Library.Multiset"
begin

section \<open>Contact graph: bounded breadth-first search\<close>

text \<open>
  \<^verbatim>\<open>app/pipes/flag_redcontactos.py\<close>.  The adjacency is a Python
  \<^verbatim>\<open>Dict[str, Set[str]]\<close>: a partial map from a node to its neighbours.  The
  neighbours are kept as a list, which fixes the order in which the \<^verbatim>\<open>for\<close>
  loop walks the set; results that hold for every adjacency hold for every such order.
  Person ids may be \<^verbatim>\<open>None\<close> after parsing, so the node type is left polymorphic.
\<close>

type_synonym 'a adjacency = "'a \<Rightarrow> 'a list option"

definition adj_get :: "'a adjacency \<Rightarrow> 'a \<Rightarrow> 'a list" where
  \<comment> \<open>\<^verbatim>\<open>adj.get(node, [])\<close>\<close>
  "adj_get adj node = (case adj node of None \<Rightarrow> [] | Some nbs \<Rightarrow> nbs)"

text \<open>
  The body of \<^verbatim>\<open>for nb in adj.get(node, [])\<close> for one dequeued
  \<^verbatim>\<open>(node, path)\<close>: \<open>Inl\<close> is the \<^verbatim>\<open>return newp\<close> in the middle of the loop,
  \<open>Inr\<close> the \<^verbatim>\<open>seen\<close> set and the queue when the loop runs to its end.
\<close>

fun visit ::
  "'a \<Rightarrow> int \<Rightarrow> 'a list \<Rightarrow> 'a list \<Rightarrow> 'a set \<Rightarrow> ('a \<times> 'a list) list
    \<Rightarrow> 'a list + ('a set \<times> ('a \<times> 'a list) list)" where
  "visit dst max_depth path [] seen q = Inr (seen, q)"
| "visit dst max_depth path (nb # nbs) seen q =
     (if nb \<in> seen then visit dst max_depth path nbs seen q
      else let newp = path @ [nb] in
        if nb = dst then Inl newp
        else if int (length newp) - 1 \<le> max_depth
          then visit dst max_depth path nbs (insert nb seen) (q @ [(nb, newp)])
          else visit dst max_depth path nbs seen q)"

lemma visit_queue:
  "visit dst md path nbs seen q = Inr (seen', q') \<Longrightarrow>
     \<exists>cs. q' = q @ cs \<and> (\<forall>c \<in> set cs. length (snd c) = Suc (length path) \<and> int (length path) \<le> md)"
proof (induction nbs arbitrary: seen q)
  case Nil
  then show ?case by simp
next
  case (Cons nb nbs)
  show ?case
  proof (cases "nb \<in> seen")
    case True
    with Cons show ?thesis by simp
  next
    case unseen: False
    show ?thesis
    proof (cases "nb = dst")
      case True
      with unseen Cons.prems show ?thesis by (simp add: Let_def)
    next
      case notdst: False
      show ?thesis
      proof (cases "int (length (path @ [nb])) - 1 \<le> md")
        case True
        with unseen notdst Cons.prems
        have "visit dst md path nbs (insert nb seen) (q @ [(nb, path @ [nb])]) = Inr (seen', q')"
          by (simp add: Let_def)
        from Cons.IH [OF this] obtain cs where
          cs: "q' = (q @ [(nb, path @ [nb])]) @ cs"
            "\<forall>c \<in> set cs. length (snd c) = Suc (length path) \<and> int (length path) \<le> md"
          by blast
        from True have "int (length path) \<le> md" by simp
        with cs have "q' = q @ ((nb, path @ [nb]) # cs) \<and>
          (\<forall>c \<in> set ((nb, path @ [nb]) # cs).
              length (snd c) = Suc (length path) \<and> int (length path) \<le> md)"
          by simp
        then show ?thesis by blast
      next
        case False
        with unseen notdst Cons.prems
        have "visit dst md path nbs seen q = Inr (seen', q')"
          by (simp add: Let_def)
        from Cons.IH [OF this] show ?thesis .
      qed
    qed
  qed
qed

text \<open>
  The \<^verbatim>\<open>while q:\<close> loop.  The test \<^verbatim>\<open>if len(path) - 1 >= max_depth: pass\<close> at
  the head of the body does nothing, so it leaves no trace here.
\<close>

definition path_budget :: "int \<Rightarrow> ('a \<times> 'a list) \<Rightarrow> nat" where
  "path_budget md c = nat (md + 1 - int (length (snd c)))"

function bfs ::
  "'a adjacency \<Rightarrow> 'a \<Rightarrow> int \<Rightarrow> ('a \<times> 'a list) list \<Rightarrow> 'a set \<Rightarrow> 'a list option" where
  "bfs adj dst max_depth [] seen = None"
| "bfs adj dst max_depth ((node, path) # q) seen =
     (case visit dst max_depth path (adj_get adj node) seen q of
        Inl newp \<Rightarrow> Some newp
      | Inr (seen', q') \<Rightarrow> bfs adj dst max_depth q' seen')"
  by pat_completeness auto
termination
proof (relation "inv_image (mult less_than)
         (\<lambda>(adj, dst, md, q, seen). mset (map (path_budget md) q))")
  show "wf (inv_image (mult less_than)
         (\<lambda>(adj :: 'a adjacency, dst :: 'a, md, q, seen :: 'a set). mset (map (path_budget md) q)))"
    by (intro wf_inv_image wf_mult wf_less_than)
next
  fix adj :: "'a adjacency" and dst :: 'a and max_depth :: int and node :: 'a
    and path :: "'a list" and q :: "('a \<times> 'a list) list" and seen :: "'a set"
    and x2 :: "'a set \<times> ('a \<times> 'a list) list" and seen' :: "'a set"
    and q' :: "('a \<times> 'a list) list"
  assume v: "visit dst max_depth path (adj_get adj node) seen q = Inr x2"
    and x2: "(seen', q') = x2"
  from v x2 have "visit dst max_depth path (adj_get adj node) seen q = Inr (seen', q')"
    by simp
  from visit_queue [OF this] obtain cs where
    cs: "q' = q @ cs"
      "\<forall>c \<in> set cs. length (snd c) = Suc (length path) \<and> int (length path) \<le> max_depth"
    by blast
  have small: "\<forall>k \<in> set_mset (mset (map (path_budget max_depth) cs)).
      \<exists>j \<in> set_mset {#path_budget max_depth (node, path)#}. (k, j) \<in> less_than"
    using cs(2) by (auto simp: path_budget_def)
  have "(mset (map (path_budget max_depth) q) + mset (map (path_budget max_depth) cs),
         mset (map (path_budget max_depth) q) + {#path_budget max_depth (node, path)#})
        \<in> mult less_than"
    by (rule one_step_implies_mult [OF _ small]) simp
  then show "((adj, dst, max_depth, q', seen'), (adj, dst, max_depth, (node, path) # q, seen))
        \<in> inv_image (mult less_than)
            (\<lambda>(adj, dst, md, q, seen). mset (map (path_budget md) q))"
    using cs(1) by (simp add: add.commute)
qed

definition shortest_path :: "'a adjacency \<Rightarrow> 'a \<Rightarrow> 'a \<Rightarrow> int \<Rightarrow> 'a list option" where
  "shortest_path adj src dst max_depth =
     (if src = dst \<or> adj src = None \<or> adj dst = None then None
      else bfs adj dst max_depth [(src, [src])] {src})"

text \<open>The chain graph A - B - C - D, with both directions of every edge.\<close>

definition chain_graph :: "string adjacency" where
  "chain_graph =
     [''A'' \<mapsto> [''B''], ''B'' \<mapsto> [''A'', ''C''], ''C'' \<mapsto> [''B'', ''D''], ''D'' \<mapsto> [''C'']]"

section \<open>Dates and the business-day count\<close>

text \<open>
  \<^verbatim>\<open>app/pipes/flag_fecha.py\<close>.  A \<^verbatim>\<open>datetime\<close> (naive, as the columns are
  \<^verbatim>\<open>DateTime(timezone=False)\<close>) is its proleptic Gregorian day number, Python's
  \<^verbatim>\<open>date.toordinal()\<close>, and the time of day in microseconds; a \<^verbatim>\<open>date\<close> is
  the day number alone.  Day 1 is Monday 0001-01-01.
\<close>

record datetime =
  ordinal :: int
  micros :: nat

definition dt_less :: "datetime \<Rightarrow> datetime \<Rightarrow> bool" where
  \<comment> \<open>\<^verbatim>\<open>a < b\<close> on naive datetimes\<close>
  "dt_less a b \<longleftrightarrow> ordinal a < ordinal b \<or> (ordinal a = ordinal b \<and> micros a < micros b)"

definition weekday :: "int \<Rightarrow> int" where
  \<comment> \<open>\<^verbatim>\<open>date.weekday()\<close>: Monday is 0, Sunday is 6\<close>
  "weekday d = (d + 6) mod 7"

text \<open>
  \<^verbatim>\<open>date.isoformat()\<close>, after \<^verbatim>\<open>_ord2ymd\<close> of the standard library's
  \<^verbatim>\<open>datetime\<close> module: the year, month and day of a day number, printed as
  \<^verbatim>\<open>YYYY-MM-DD\<close>.
\<close>

definition days_in_month_tbl :: "int list" where
  \<comment> \<open>\<^verbatim>\<open>_DAYS_IN_MONTH\<close>\<close>
  "days_in_month_tbl = [-1, 31, 28, 31, 30, 31, 30, 31, 31, 30, 31, 30, 31]"

definition days_before_month_tbl :: "int list" where
  \<comment> \<open>\<^verbatim>\<open>_DAYS_BEFORE_MONTH\<close>\<close>
  "days_before_month_tbl = [-1, 0, 31, 59, 90, 120, 151, 181, 212, 243, 273, 304, 334]"

definition ord2ymd :: "int \<Rightarrow> int \<times> int \<times> int" where
  "ord2ymd n0 =
     (let n = n0 - 1;
          n400 = n div 146097; n = n mod 146097;
          n100 = n div 36524; n = n mod 36524;
          n4 = n div 1461; n = n mod 1461;
          n1 = n div 365; n = n mod 365;
          year = n400 * 400 + 1 + n100 * 100 + n4 * 4 + n1
      in if n1 = 4 \<or> n100 = 4 then (year - 1, 12, 31)
         else
           let leapyear = (n1 = 3 \<and> (n4 \<noteq> 24 \<or> n100 = 3));
               month = (n + 50) div 32;
               preceding = days_before_month_tbl ! nat month
                             + (if month > 2 \<and> leapyear then 1 else 0)
           in if preceding > n
              then (year, month - 1,
                    n - (preceding - (days_in_month_tbl ! nat (month - 1)
                                       + (if month - 1 = 2 \<and> leapyear then 1 else 0))) + 1)
              else (year, month, n - preceding + 1))"

definition digit :: "int \<Rightarrow> char" where
  "digit k = ''0123456789'' ! nat (k mod 10)"

definition isoformat :: "int \<Rightarrow> string" where
  "isoformat d =
     (case ord2ymd d of (y, m, dd) \<Rightarrow>
        [digit (y div 1000), digit (y div 100), digit (y div 10), digit y, CHR ''-'',
         digit (m div 10), digit m, CHR ''-'', digit (dd div 10), digit dd])"

text \<open>
  The loop \<^verbatim>\<open>while cur < end\<close> of \<^verbatim>\<open>_business_days\<close>, with \<^verbatim>\<open>days\<close> as
  accumulator.  \<^verbatim>\<open>holidays\<close> is \<^verbatim>\<open>set[str] | None\<close>; \<^verbatim>\<open>not holidays\<close> holds
  for \<^verbatim>\<open>None\<close> and for the empty set.
\<close>

function count_days :: "string set option \<Rightarrow> int \<Rightarrow> int \<Rightarrow> int \<Rightarrow> int" where
  "count_days holidays cur end days =
     (if cur < end
      then count_days holidays (cur + 1) end
             (if weekday cur < 5 \<and>
                 (holidays = None \<or> holidays = Some {} \<or> isoformat cur \<notin> the holidays)
              then days + 1 else days)
      else days)"
  by pat_completeness auto
termination
  by (relation "measure (\<lambda>(holidays, cur, end, days). nat (end - cur))") auto

declare count_days.simps [simp del]

definition business_days ::
  "datetime option \<Rightarrow> datetime option \<Rightarrow> string set option \<Rightarrow> int option" where
  "business_days d1 d2 holidays =
     (case (d1, d2) of
        (Some a, Some b) \<Rightarrow>
          (let (a', b') = (if dt_less b a then (b, a) else (a, b))
           in Some (count_days holidays (ordinal a') (ordinal b') 0))
      | _ \<Rightarrow> None)"

section \<open>Numbers, statistics and rendered text\<close>

text \<open>
  A Python \<^verbatim>\<open>float\<close> is an IEEE 754 binary64 number: \<open>Fin x\<close> is the finite number of
  the value \<open>x\<close>, the other three are \<^verbatim>\<open>inf\<close>, \<^verbatim>\<open>-inf\<close> and \<^verbatim>\<open>nan\<close>.  The two
  zeros are the one value \<open>Fin 0\<close>: they compare equal, and no comparison or operation
  of the pipeline tells them apart.

  Every arithmetic operation returns its exact result rounded to the nearest binary64
  number, ties to the even significand (\<open>rnd\<close>).  A binary64 number has a significand of
  53 bits; the exponent of its last bit lies between -1074 and 971.
\<close>

datatype pyfloat = Fin real | PInf | NInf | NaN

fun bit_length :: "nat \<Rightarrow> nat" where
  \<comment> \<open>\<^verbatim>\<open>int.bit_length()\<close>\<close>
  "bit_length n = (if n = 0 then 0 else Suc (bit_length (n div 2)))"

declare bit_length.simps [simp del]

definition pow2 :: "int \<Rightarrow> real" where
  "pow2 e = (if 0 \<le> e then 2 ^ nat e else 1 / 2 ^ nat (- e))"

definition expo :: "real \<Rightarrow> int" where
  \<comment> \<open>the binary exponent of a positive number: \<open>pow2 (expo a) \<le> a < pow2 (expo a + 1)\<close>\<close>
  "expo a =
     (if 1 \<le> a then int (bit_length (nat \<lfloor>a\<rfloor>)) - 1
      else let l = int (bit_length (nat \<lfloor>1 / a\<rfloor>))
           in if pow2 (1 - l) \<le> a then 1 - l else - l)"

definition round_half_even :: "real \<Rightarrow> int" where
  "round_half_even q =
     (let f = \<lfloor>q\<rfloor>; d = q - of_int f
      in if d < 1 / 2 then f else if 1 / 2 < d then f + 1 else if even f then f else f + 1)"

definition rnd :: "real \<Rightarrow> pyfloat" where
  \<comment> \<open>\<open>e\<close> is the exponent of the number, not below that of the subnormal numbers; \<open>m\<close> is the
      significand, rounded to an integer of at most 53 bits (or to \<open>2 ^ 53\<close>, the next power
      of two); a result of \<open>2 ^ 1024\<close> or more overflows\<close>
  "rnd x =
     (if x = 0 then Fin 0
      else let a = \<bar>x\<bar>;
               e = max (expo a) (- 1022);
               m = round_half_even (a / pow2 (e - 52))
           in if 1024 \<le> e \<or> (e = 1023 \<and> m = 2 ^ 53) then (if 0 < x then PInf else NInf)
              else Fin (if 0 < x then of_int m * pow2 (e - 52) else - (of_int m * pow2 (e - 52))))"

fun isfinite :: "pyfloat \<Rightarrow> bool" where
  "isfinite (Fin r) = True"
| "isfinite x = False"

fun isnan :: "pyfloat \<Rightarrow> bool" where
  "isnan NaN = True"
| "isnan x = False"

fun fneg :: "pyfloat \<Rightarrow> pyfloat" where
  "fneg (Fin a) = Fin (- a)"
| "fneg PInf = NInf"
| "fneg NInf = PInf"
| "fneg NaN = NaN"

fun fabs :: "pyfloat \<Rightarrow> pyfloat" where
  \<comment> \<open>\<^verbatim>\<open>abs(x)\<close>, \<^verbatim>\<open>np.abs(x)\<close>\<close>
  "fabs (Fin a) = Fin \<bar>a\<bar>"
| "fabs PInf = PInf"
| "fabs NInf = PInf"
| "fabs NaN = NaN"

fun fadd :: "pyfloat \<Rightarrow> pyfloat \<Rightarrow> pyfloat" where
  \<comment> \<open>\<^verbatim>\<open>x + y\<close>\<close>
  "fadd (Fin a) (Fin b) = rnd (a + b)"
| "fadd NaN y = NaN"
| "fadd x NaN = NaN"
| "fadd PInf NInf = NaN"
| "fadd NInf PInf = NaN"
| "fadd PInf y = PInf"
| "fadd NInf y = NInf"
| "fadd x PInf = PInf"
| "fadd x NInf = NInf"

definition fsub :: "pyfloat \<Rightarrow> pyfloat \<Rightarrow> pyfloat" where
  \<comment> \<open>\<^verbatim>\<open>x - y\<close>\<close>
  "fsub x y = fadd x (fneg y)"

fun fmul :: "pyfloat \<Rightarrow> pyfloat \<Rightarrow> pyfloat" where
  \<comment> \<open>\<^verbatim>\<open>x * y\<close>; in the last three equations the remaining arguments are infinite\<close>
  "fmul (Fin a) (Fin b) = rnd (a * b)"
| "fmul NaN y = NaN"
| "fmul x NaN = NaN"
| "fmul (Fin a) y = (if a = 0 then NaN else if 0 < a then y else fneg y)"
| "fmul x (Fin b) = (if b = 0 then NaN else if 0 < b then x else fneg x)"
| "fmul x y = (if x = y then PInf else NInf)"

fun fdiv :: "pyfloat \<Rightarrow> pyfloat \<Rightarrow> pyfloat" where
  \<comment> \<open>\<^verbatim>\<open>x / y\<close> for a divisor other than zero.  On a zero divisor Python raises
      \<^verbatim>\<open>ZeroDivisionError\<close>; the detector tests the divisor before each of its divisions, so
      that case is never reached, and it is given the value \<open>NaN\<close> here.\<close>
  "fdiv (Fin a) (Fin b) = (if b = 0 then NaN else rnd (a / b))"
| "fdiv NaN y = NaN"
| "fdiv x NaN = NaN"
| "fdiv (Fin a) y = Fin 0"
| "fdiv x (Fin b) = (if b = 0 then NaN else if 0 < b then x else fneg x)"
| "fdiv x y = NaN"

fun pf_less :: "pyfloat \<Rightarrow> pyfloat \<Rightarrow> bool" where
  \<comment> \<open>\<^verbatim>\<open>x < y\<close>\<close>
  "pf_less NaN y = False"
| "pf_less x NaN = False"
| "pf_less (Fin a) (Fin b) = (a < b)"
| "pf_less NInf (Fin b) = True"
| "pf_less NInf PInf = True"
| "pf_less (Fin a) PInf = True"
| "pf_less x y = False"

fun pf_le :: "pyfloat \<Rightarrow> pyfloat \<Rightarrow> bool" where
  \<comment> \<open>\<^verbatim>\<open>x <= y\<close>\<close>
  "pf_le NaN y = False"
| "pf_le x NaN = False"
| "pf_le (Fin a) (Fin b) = (a \<le> b)"
| "pf_le NInf y = True"
| "pf_le x PInf = True"
| "pf_le x y = False"

text \<open>
  The column \<^verbatim>\<open>cuantia\<close> is \<^verbatim>\<open>Numeric(18, 2)\<close>, which holds a decimal number or NaN
  and which the driver returns as a \<^verbatim>\<open>Decimal\<close>; \<^verbatim>\<open>float(row[3])\<close> rounds it to the
  nearest binary64 number.
\<close>

datatype numeric = Num real | NumNaN

fun float_of :: "numeric \<Rightarrow> pyfloat" where
  "float_of (Num r) = rnd r"
| "float_of NumNaN = NaN"

record RobustStats =
  rs_median :: pyfloat
  rs_mad :: pyfloat
  rs_z_mad :: pyfloat
  rs_q1 :: pyfloat
  rs_q3 :: pyfloat
  rs_iqr :: pyfloat
  rs_lower :: pyfloat
  rs_upper :: pyfloat
  rs_n :: nat

text \<open>
  Comments, names and descriptions are f-strings over numbers and timestamps.  A rendered
  text is kept as the template that produced it together with the values it interpolates;
  \<open>Texto\<close> is a plain string.
\<close>

datatype texto =
    Texto string
  | NombrePrecio
    \<comment> \<open>\<^verbatim>\<open>'Desviacion de precio (comparables)'\<close>\<close>
  | DescPrecio
    \<comment> \<open>\<^verbatim>\<open>'Evalua si la cuantia esta fuera del rango robusto (IQR/zMAD) ...'\<close>\<close>
  | SinEmbedding
    \<comment> \<open>\<^verbatim>\<open>"Sin embedding/chunks validos para el target; no se puede calcular similitud con comparables."\<close>\<close>
  | SinComparables
    \<comment> \<open>\<^verbatim>\<open>"No hay comparables con doc_vec (chunks) validos para estimar precio."\<close>\<close>
  | PocosComparables nat int
    \<comment> \<open>\<^verbatim>\<open>f"Solo {vec_cuantias.size} comparables con cuantia; se requieren >= {min_neighbors} ..."\<close>\<close>
  | SinCuantia
    \<comment> \<open>\<^verbatim>\<open>"Licitacion sin cuantia; no se evalua outlier de precio."\<close>\<close>
  | PosibleOutlier pyfloat RobustStats "pyfloat option" nat
    \<comment> \<open>\<^verbatim>\<open>"Posible outlier de precio: ..."\<close>: cuantia, stats, deviation in percent, neighbours\<close>
  | PrecioEnRango pyfloat RobustStats "pyfloat option" nat
    \<comment> \<open>\<^verbatim>\<open>"Precio en rango: ..."\<close>: the same values\<close>
  | NombreGap
    \<comment> \<open>\<^verbatim>\<open>FLAG_NAME\<close> of \<^verbatim>\<open>flag_fecha.py\<close>\<close>
  | DescGap int
    \<comment> \<open>\<^verbatim>\<open>FLAG_DESC.format(dias="{n}", threshold=threshold)\<close>\<close>
  | GapComentario int int "datetime option" "datetime option" string
    \<comment> \<open>\<^verbatim>\<open>f"Gap: {dias} dias habiles (Aceptacion: ..., Apertura: ...; archivo=...) ..."\<close>:
        dias, threshold, both timestamps, archivo\<close>
  | MejorCoincidencia "string option" "string option" nat nat
    \<comment> \<open>\<^verbatim>\<open>"[red_contactos] Mejor coincidencia: ..."\<close>: both names, hops, number of matches\<close>
  | ConectividadAlta "string option" nat
    \<comment> \<open>\<^verbatim>\<open>"[red_contactos] Sin caminos <=2 saltos; oficial con conectividad alta: ..."\<close>\<close>
  | SinEvidencias
    \<comment> \<open>\<^verbatim>\<open>"[red_contactos] No hay suficientes evidencias de conexion."\<close>\<close>
  | LicitacionNoExiste
    \<comment> \<open>\<^verbatim>\<open>"Licitacion no existe"\<close>\<close>
  | JsonVacio
    \<comment> \<open>\<^verbatim>\<open>"JSON vacio"\<close>\<close>
  | SinPersonas
    \<comment> \<open>\<^verbatim>\<open>"Sin 'personas' validas"\<close>\<close>

section \<open>The store\<close>

text \<open>
  \<^verbatim>\<open>app/db/schema.py\<close>: one list of rows per table, with the columns the pipeline
  reads or writes.  \<open>now\<close> is what \<^verbatim>\<open>datetime.now()\<close> reads.
\<close>

record licitacion =
  lic_id :: int
  entidad :: string
  modalidad :: "string option"
  act_econ :: "string option"
  estado :: "string option"
  cuantia :: "numeric option"

record flags =
  f_id :: int
  f_codigo :: "string option"
  f_nombre :: "texto option"
  f_descripcion :: "texto option"

record flags_licitaciones =
  fl_id :: int
  fl_licitacion_id :: int
  fl_flag_id :: int
  fl_valor :: bool
  fl_fecha_detectado :: datetime
  fl_comentario :: "texto option"
  fl_fuente :: "string option"

record flags_log =
  lg_flags_licitaciones_id :: int
  lg_cambio :: "bool \<times> texto \<times> string"
  lg_fecha :: datetime
  lg_usuario :: string

record licitacion_chunk =
  ch_id :: int
  ch_licitacion_id :: int
  ch_embedding_vec :: "pyfloat list option"

record licitacion_keymap =
  km_licitacion_id :: int
  km_lic_ext_id :: "string option"

record secop_calendario_norm =
  cal_archivo :: string
  cal_aceptacion_ofertas_ts :: "datetime option"
  cal_apertura_ofertas_ts :: "datetime option"

record db =
  licitaciones :: "licitacion list"
  flags_tbl :: "flags list"
  flags_licitaciones_tbl :: "flags_licitaciones list"
  flags_log_tbl :: "flags_log list"
  chunks :: "licitacion_chunk list"
  keymap :: "licitacion_keymap list"
  calendario :: "secop_calendario_norm list"
  now :: datetime

datatype error =
    MultipleResultsFound
    \<comment> \<open>\<^verbatim>\<open>scalar_one_or_none()\<close> on more than one row\<close>
  | NoExiste int
    \<comment> \<open>\<^verbatim>\<open>ValueError(f"Licitacion {licitacion_id} no existe")\<close>\<close>
  | FlowDesconocido string
    \<comment> \<open>\<^verbatim>\<open>ValueError(f"Flow desconocido o no disponible: {flow}")\<close> and
        \<^verbatim>\<open>ValueError(f"Flow desconocido: {ksflow}")\<close>\<close>
  | RequiereJson
    \<comment> \<open>\<^verbatim>\<open>ValueError("red_contactos requiere json_override ...")\<close>\<close>
  | RequiereLicIds
    \<comment> \<open>\<^verbatim>\<open>ValueError("red_contactos requiere lic_ids ...")\<close>\<close>
  | ShapeMismatch
    \<comment> \<open>\<^verbatim>\<open>ValueError\<close> of \<^verbatim>\<open>np.vstack\<close> or \<^verbatim>\<open>np.dot\<close> on vectors of different sizes\<close>
  | LimitNegativo
    \<comment> \<open>the database rejects \<^verbatim>\<open>LIMIT\<close> with a negative number\<close>
  | DataError
    \<comment> \<open>\<^verbatim>\<open>sqlalchemy.exc.DataError\<close>: the database rejects a string longer than its
        \<^verbatim>\<open>String(n)\<close> column\<close>
  | IntegrityError
    \<comment> \<open>\<^verbatim>\<open>sqlalchemy.exc.IntegrityError\<close>: the database rejects a row whose foreign key
        names no row\<close>

definition next_id :: "int list \<Rightarrow> int" where
  \<comment> \<open>a fresh primary key: \<^verbatim>\<open>COALESCE(MAX(id), 0) + 1\<close>, which is also what the
      column's sequence yields as long as it is in step with the table\<close>
  "next_id ids = fold max ids 0 + 1"

definition str_or :: "string option \<Rightarrow> string \<Rightarrow> string" where
  \<comment> \<open>\<^verbatim>\<open>x or d\<close> on an optional string: \<^verbatim>\<open>None\<close> and \<^verbatim>\<open>""\<close> are falsy\<close>
  "str_or x d = (case x of None \<Rightarrow> d | Some s \<Rightarrow> if s = [] then d else s)"

subsection \<open>\<^verbatim>\<open>app/db/repo.py\<close>\<close>

text \<open>
  \<^verbatim>\<open>session.flush()\<close> sends the \<^verbatim>\<open>INSERT\<close> to the database, which checks the row
  against the schema: \<^verbatim>\<open>flags.codigo\<close> is \<^verbatim>\<open>String(10)\<close> and \<^verbatim>\<open>flags.nombre\<close>
  is \<^verbatim>\<open>String(255)\<close>; \<^verbatim>\<open>flags_licitaciones.licitacion_id\<close> is a foreign key to
  \<^verbatim>\<open>licitacion.id\<close> and \<^verbatim>\<open>flags_licitaciones.flag_id\<close> one to \<^verbatim>\<open>flags.id\<close>.
\<close>

definition ensure_flag_by_codigo :: "db \<Rightarrow> string \<Rightarrow> string option \<Rightarrow> error + (flags \<times> db)" where
  "ensure_flag_by_codigo session codigo nombre =
     (case filter (\<lambda>f. f_codigo f = Some codigo) (flags_tbl session) of
        [] \<Rightarrow>
          (let flag = \<lparr>f_id = next_id (map f_id (flags_tbl session)),
                       f_codigo = Some codigo,
                       f_nombre = Some (Texto (str_or nombre codigo)),
                       f_descripcion = None\<rparr>
           in if 10 < length codigo \<or> 255 < length (str_or nombre codigo) then Inl DataError
              else Inr (flag, session\<lparr>flags_tbl := flags_tbl session @ [flag]\<rparr>))
      | [flag] \<Rightarrow> Inr (flag, session)
      | _ \<Rightarrow> Inl MultipleResultsFound)"

fun update_first :: "('a \<Rightarrow> bool) \<Rightarrow> ('a \<Rightarrow> 'a) \<Rightarrow> 'a list \<Rightarrow> 'a list" where
  "update_first P f [] = []"
| "update_first P f (x # xs) = (if P x then f x # xs else x # update_first P f xs)"

definition set_flag_for_licitacion ::
  "db \<Rightarrow> int \<Rightarrow> string \<Rightarrow> bool \<Rightarrow> texto option \<Rightarrow> string option \<Rightarrow> string option
     \<Rightarrow> datetime option \<Rightarrow> error + (flags_licitaciones \<times> db)" where
  "set_flag_for_licitacion session licitacion_id flag_codigo valor comentario fuente usuario_log fecha0 =
     (let fecha = (case fecha0 of None \<Rightarrow> now session | Some f \<Rightarrow> f) in
      case ensure_flag_by_codigo session flag_codigo None of
        Inl e \<Rightarrow> Inl e
      | Inr (flag, s1) \<Rightarrow>
          (let hit = (\<lambda>r. fl_licitacion_id r = licitacion_id \<and> fl_flag_id r = f_id flag);
               upd = (\<lambda>r. r\<lparr>fl_valor := valor, fl_fecha_detectado := fecha,
                              fl_comentario := comentario, fl_fuente := fuente\<rparr>)
           in case (case filter hit (flags_licitaciones_tbl s1) of
                      [] \<Rightarrow>
                        (let new = \<lparr>fl_id = next_id (map fl_id (flags_licitaciones_tbl s1)),
                                    fl_licitacion_id = licitacion_id,
                                    fl_flag_id = f_id flag,
                                    fl_valor = valor,
                                    fl_fecha_detectado = fecha,
                                    fl_comentario = comentario,
                                    fl_fuente = fuente\<rparr>
                         in if licitacion_id \<notin> set (map lic_id (licitaciones s1))
                               \<or> f_id flag \<notin> set (map f_id (flags_tbl s1))
                            then Inl IntegrityError
                            else Inr (new, s1\<lparr>flags_licitaciones_tbl :=
                                                 flags_licitaciones_tbl s1 @ [new]\<rparr>))
                    | old # _ \<Rightarrow>
                        Inr (upd old,
                             s1\<lparr>flags_licitaciones_tbl :=
                                  update_first hit upd (flags_licitaciones_tbl s1)\<rparr>)) of
                Inl e \<Rightarrow> Inl e
              | Inr (fli, s2) \<Rightarrow>
                  (let log = \<lparr>lg_flags_licitaciones_id = fl_id fli,
                              lg_cambio = (valor,
                                           (case comentario of None \<Rightarrow> Texto [] | Some c \<Rightarrow> c),
                                           str_or fuente []),
                              lg_fecha = fecha,
                              lg_usuario = str_or usuario_log ''sistema''\<rparr>
                   in Inr (fli, s2\<lparr>flags_log_tbl := flags_log_tbl s2 @ [log]\<rparr>))))"

text \<open>
  The unique constraints of the schema: \<^verbatim>\<open>uq_flags_codigo\<close> on
  \<^verbatim>\<open>flags.codigo\<close> and \<^verbatim>\<open>uq_flags_licitacion_flag\<close> on
  \<^verbatim>\<open>(licitacion_id, flag_id)\<close>.
\<close>

definition unique_rows :: "db \<Rightarrow> bool" where
  "unique_rows s \<longleftrightarrow>
     distinct (filter (\<lambda>c. c \<noteq> None) (map f_codigo (flags_tbl s)))
     \<and> distinct (map (\<lambda>r. (fl_licitacion_id r, fl_flag_id r)) (flags_licitaciones_tbl s))"

definition assignments :: "db \<Rightarrow> int \<Rightarrow> string \<Rightarrow> flags_licitaciones list" where
  \<comment> \<open>the assignment rows of one (entity id, flag code) pair\<close>
  "assignments s licitacion_id codigo =
     filter (\<lambda>r. fl_licitacion_id r = licitacion_id
                  \<and> (\<exists>f \<in> set (flags_tbl s). f_codigo f = Some codigo \<and> f_id f = fl_flag_id r))
       (flags_licitaciones_tbl s)"

section \<open>Price detector\<close>

text \<open>
  \<^verbatim>\<open>app/pipes/flag_precio.py\<close>.  The embedding vectors and the scores computed from them
  are lists of reals and reals (\<^verbatim>\<open>float32\<close> rounding is not modelled there); the monetary
  values and the statistics over them are binary64 numbers.
\<close>

definition TOP_K :: int where "TOP_K = 50"
definition MIN_NEIGHBORS_FOR_STATS :: int where "MIN_NEIGHBORS_FOR_STATS = 10"
definition Z_MAD_THRESHOLD :: pyfloat where
  \<comment> \<open>the literal \<^verbatim>\<open>2.8\<close>\<close>
  "Z_MAD_THRESHOLD = rnd (28 / 10)"
definition MAX_TARGET_CHUNKS :: nat where "MAX_TARGET_CHUNKS = 128"
definition MAX_CANDIDATES :: nat where "MAX_CANDIDATES = 5000"
definition MAX_CAND_PER_LIC_CHUNKS :: nat where "MAX_CAND_PER_LIC_CHUNKS = 64"
definition STRICT_FILTER_MODALIDAD :: bool where "STRICT_FILTER_MODALIDAD = True"
definition STRICT_FILTER_ACT_ECON :: bool where "STRICT_FILTER_ACT_ECON = True"
definition PENALTY_ESTADO :: real where "PENALTY_ESTADO = 0.10"

subsection \<open>Helpers\<close>

definition upsert_flag :: "db \<Rightarrow> string \<Rightarrow> texto \<Rightarrow> texto \<Rightarrow> error + db" where
  \<comment> \<open>\<^verbatim>\<open>INSERT INTO public.flags ... ON CONFLICT (codigo) DO UPDATE SET nombre, descripcion\<close>;
      the proposed row must fit the column \<^verbatim>\<open>codigo\<close>, which is \<^verbatim>\<open>String(10)\<close>\<close>
  "upsert_flag session codigo nombre descripcion =
     (if 10 < length codigo then Inl DataError
      else if \<exists>f \<in> set (flags_tbl session). f_codigo f = Some codigo
      then Inr (session\<lparr>flags_tbl :=
             map (\<lambda>f. if f_codigo f = Some codigo
                        then f\<lparr>f_nombre := Some nombre, f_descripcion := Some descripcion\<rparr>
                        else f)
               (flags_tbl session)\<rparr>)
      else Inr (session\<lparr>flags_tbl := flags_tbl session @
             [\<lparr>f_id = next_id (map f_id (flags_tbl session)), f_codigo = Some codigo,
               f_nombre = Some nombre, f_descripcion = Some descripcion\<rparr>]\<rparr>))"

definition ensure_flag_precio :: "db \<Rightarrow> error + db" where
  \<comment> \<open>\<^verbatim>\<open>_ensure_flag(session)\<close>\<close>
  "ensure_flag_precio session = upsert_flag session ''red_precio'' NombrePrecio DescPrecio"

fun fin_val :: "pyfloat \<Rightarrow> real" where
  "fin_val (Fin r) = r"
| "fin_val x = 0"

definition to_np_vec :: "pyfloat list option \<Rightarrow> real list option" where
  \<comment> \<open>usable when one-dimensional, not empty and finite in every component\<close>
  "to_np_vec v =
     (case v of
        None \<Rightarrow> None
      | Some xs \<Rightarrow> if xs \<noteq> [] \<and> list_all isfinite xs then Some (map fin_val xs) else None)"

definition l2_normalize :: "real list \<Rightarrow> real list" where
  "l2_normalize x =
     (let n = sqrt (\<Sum>a \<leftarrow> x. a * a)
      in if n = 0 then x else map (\<lambda>a. a / n) x)"

definition vstack_mean :: "real list list \<Rightarrow> error + real list" where
  \<comment> \<open>\<^verbatim>\<open>np.vstack(vecs).mean(axis=0)\<close>; \<^verbatim>\<open>vstack\<close> raises on rows of different sizes\<close>
  "vstack_mean vecs =
     (case vecs of
        [] \<Rightarrow> Inl ShapeMismatch
      | v # vs \<Rightarrow>
          if \<exists>w \<in> set vs. length w \<noteq> length v then Inl ShapeMismatch
          else Inr (map (\<lambda>i. (\<Sum>w \<leftarrow> vecs. w ! i) / real (length vecs)) [0..<length v]))"

subsection \<open>Robust statistics\<close>

text \<open>
  \<^verbatim>\<open>np.median\<close> and \<^verbatim>\<open>np.percentile\<close> on a one-dimensional \<^verbatim>\<open>float64\<close> array, as
  numpy computes them (version 1.20 and later).  Both return \<^verbatim>\<open>nan\<close> for an array that
  holds one.  The median of an even number of values is the \<^verbatim>\<open>mean\<close> of the two middle
  ones: their sum divided by 2.  The percentile is taken at the position
  \<open>(n - 1) * q / 100\<close> of the sorted array, which is exact in binary64 for the two quantiles
  the detector asks for; between two values it is \<^verbatim>\<open>_lerp(a, b, t)\<close>, which computes
  \<^verbatim>\<open>a + (b - a) * t\<close>, and \<^verbatim>\<open>b - (b - a) * (1 - t)\<close> where \<^verbatim>\<open>t >= 0.5\<close>.
\<close>

fun insort_float :: "pyfloat \<Rightarrow> pyfloat list \<Rightarrow> pyfloat list" where
  "insort_float x [] = [x]"
| "insort_float x (y # ys) = (if pf_le x y then x # y # ys else y # insort_float x ys)"

definition np_sort :: "pyfloat list \<Rightarrow> pyfloat list" where
  \<comment> \<open>ascending order, for an array without \<^verbatim>\<open>nan\<close>\<close>
  "np_sort xs = foldr insort_float xs []"

definition np_median :: "pyfloat list \<Rightarrow> pyfloat" where
  "np_median xs =
     (if xs = [] \<or> list_ex isnan xs then NaN
      else let a = np_sort xs; n = length a
           in if even n then fdiv (fadd (a ! (n div 2 - 1)) (a ! (n div 2))) (Fin 2)
              else a ! (n div 2))"

definition lerp :: "pyfloat \<Rightarrow> pyfloat \<Rightarrow> real \<Rightarrow> pyfloat" where
  "lerp a b t =
     (if 1 / 2 \<le> t then fsub b (fmul (fsub b a) (Fin (1 - t)))
      else fadd a (fmul (fsub b a) (Fin t)))"

definition np_percentile :: "pyfloat list \<Rightarrow> real \<Rightarrow> pyfloat" where
  \<comment> \<open>for a non-empty array and \<open>q\<close> of 25 or 75\<close>
  "np_percentile xs q =
     (if list_ex isnan xs then NaN
      else let a = np_sort xs; n = length a;
               h = real (n - 1) * q / 100;
               lo = nat \<lfloor>h\<rfloor>;
               hi = min (lo + 1) (n - 1)
           in lerp (a ! lo) (a ! hi) (h - real lo))"

definition robust_stats :: "pyfloat list \<Rightarrow> pyfloat \<Rightarrow> RobustStats" where
  "robust_stats arr target =
     (let med = (if arr \<noteq> [] then np_median arr else Fin 0);
          abs_dev = (if arr \<noteq> [] then map (\<lambda>x. fabs (fsub x med)) arr else [Fin 0]);
          mad = np_median abs_dev;
          z_mad = (if mad = Fin 0 \<or> \<not> isfinite target then Fin 0
                   else fdiv (fmul (rnd (6745 / 10000)) (fsub target med)) mad);
          q1 = (if arr \<noteq> [] then np_percentile arr 25 else Fin 0);
          q3 = (if arr \<noteq> [] then np_percentile arr 75 else Fin 0);
          iqr = fsub q3 q1;
          lower = fsub q1 (fmul (Fin (3 / 2)) iqr);
          upper = fadd q3 (fmul (Fin (3 / 2)) iqr)
      in \<lparr>rs_median = med, rs_mad = mad, rs_z_mad = z_mad, rs_q1 = q1, rs_q3 = q3,
          rs_iqr = iqr, rs_lower = lower, rs_upper = upper, rs_n = length arr\<rparr>)"

definition empty_stats :: RobustStats where
  \<comment> \<open>\<^verbatim>\<open>RobustStats(0, 0, 0, 0, 0, 0, 0, 0, 0)\<close>\<close>
  "empty_stats =
     \<lparr>rs_median = Fin 0, rs_mad = Fin 0, rs_z_mad = Fin 0, rs_q1 = Fin 0, rs_q3 = Fin 0,
      rs_iqr = Fin 0, rs_lower = Fin 0, rs_upper = Fin 0, rs_n = 0\<rparr>"

subsection \<open>Queries\<close>

definition chunk_rows :: "db \<Rightarrow> int \<Rightarrow> nat \<Rightarrow> licitacion_chunk list" where
  \<comment> \<open>the first \<open>m\<close> chunks of one entity with a vector, by chunk id\<close>
  "chunk_rows session lic m =
     take m (sort_key ch_id
       (filter (\<lambda>c. ch_licitacion_id c = lic \<and> ch_embedding_vec c \<noteq> None) (chunks session)))"

definition pooled :: "licitacion_chunk list \<Rightarrow> error + real list option" where
  \<comment> \<open>the normalised mean of the normalised usable vectors; \<open>None\<close> when there is none\<close>
  "pooled rows =
     (let vecs = map l2_normalize (List.map_filter (\<lambda>c. to_np_vec (ch_embedding_vec c)) rows)
      in if vecs = [] then Inr None
         else case vstack_mean vecs of
                Inl e \<Rightarrow> Inl e
              | Inr mean \<Rightarrow> Inr (Some (l2_normalize mean)))"

definition fetch_target_docvec :: "db \<Rightarrow> int \<Rightarrow> error + real list option" where
  "fetch_target_docvec session lic = pooled (chunk_rows session lic MAX_TARGET_CHUNKS)"

record meta =
  m_modalidad :: "string option"
  m_act_econ :: "string option"
  m_estado :: "string option"
  m_cuantia :: "pyfloat option"

definition fetch_target_meta :: "db \<Rightarrow> int \<Rightarrow> meta" where
  \<comment> \<open>the empty dict, read only through \<^verbatim>\<open>.get\<close>, is the record of four \<open>None\<close>s\<close>
  "fetch_target_meta session lic =
     (case find (\<lambda>l. lic_id l = lic) (licitaciones session) of
        None \<Rightarrow> \<lparr>m_modalidad = None, m_act_econ = None, m_estado = None, m_cuantia = None\<rparr>
      | Some row \<Rightarrow>
          \<lparr>m_modalidad = modalidad row, m_act_econ = act_econ row, m_estado = estado row,
           m_cuantia = map_option float_of (cuantia row)\<rparr>)"

definition truthy :: "string option \<Rightarrow> bool" where
  \<comment> \<open>truth value of an optional string: \<^verbatim>\<open>None\<close> and \<^verbatim>\<open>""\<close> are falsy\<close>
  "truthy x \<longleftrightarrow> x \<noteq> None \<and> x \<noteq> Some []"

definition fetch_candidate_headers :: "db \<Rightarrow> int \<Rightarrow> meta \<Rightarrow> licitacion list" where
  "fetch_candidate_headers session lic filt =
     take MAX_CANDIDATES (sort_key lic_id
       (filter (\<lambda>l. lic_id l \<noteq> lic
                  \<and> (STRICT_FILTER_MODALIDAD \<and> truthy (m_modalidad filt)
                       \<longrightarrow> modalidad l = m_modalidad filt)
                  \<and> (STRICT_FILTER_ACT_ECON \<and> truthy (m_act_econ filt)
                       \<longrightarrow> act_econ l = m_act_econ filt))
          (licitaciones session)))"

fun fetch_candidate_chunks_docvecs :: "db \<Rightarrow> int list \<Rightarrow> error + (int \<times> real list) list" where
  "fetch_candidate_chunks_docvecs session [] = Inr []"
| "fetch_candidate_chunks_docvecs session (lid # cand_ids) =
     (case pooled (chunk_rows session lid MAX_CAND_PER_LIC_CHUNKS) of
        Inl e \<Rightarrow> Inl e
      | Inr v \<Rightarrow>
          (case fetch_candidate_chunks_docvecs session cand_ids of
             Inl e \<Rightarrow> Inl e
           | Inr out \<Rightarrow> Inr (case v of None \<Rightarrow> out | Some vec \<Rightarrow> (lid, vec) # out)))"

subsection \<open>Cosine distance and penalty\<close>

definition cosine_distance :: "real list \<Rightarrow> real list \<Rightarrow> error + real" where
  \<comment> \<open>\<^verbatim>\<open>np.dot\<close> raises on vectors of different sizes\<close>
  "cosine_distance a b =
     (if length a \<noteq> length b then Inl ShapeMismatch
      else Inr (1 - (\<Sum>(x, y) \<leftarrow> zip (l2_normalize a) (l2_normalize b). x * y)))"

definition is_space :: "char \<Rightarrow> bool" where
  \<comment> \<open>the ASCII characters \<^verbatim>\<open>str.strip()\<close> removes\<close>
  "is_space c \<longleftrightarrow> (let k = (of_char c :: nat) in (9 \<le> k \<and> k \<le> 13) \<or> (28 \<le> k \<and> k \<le> 32))"

definition strip :: "string \<Rightarrow> string" where
  "strip s = rev (dropWhile is_space (rev (dropWhile is_space s)))"

definition penalty :: "meta \<Rightarrow> licitacion \<Rightarrow> real \<Rightarrow> real" where
  \<comment> \<open>the third argument is the module variable \<^verbatim>\<open>PENALTY_ESTADO\<close>, which
      \<^verbatim>\<open>run_flag_precio_for_one\<close> sets from its parameter before anything else\<close>
  "penalty meta_t meta_c penalty_estado =
     (if truthy (m_estado meta_t) \<and> truthy (estado meta_c)
         \<and> strip (the (m_estado meta_t)) \<noteq> strip (the (estado meta_c))
      then penalty_estado else 0)"

subsection \<open>\<^verbatim>\<open>run_flag_precio_for_one\<close>\<close>

record FlagPrecioResult =
  licitacion_id :: int
  n_comparables :: nat
  method_tag :: string  \<comment> \<open>the field \<^verbatim>\<open>method\<close>\<close>
  stats :: RobustStats
  target_cuantia :: "pyfloat option"
  neighbor_ids :: "int list"

text \<open>Step 3, the loop over the candidates: \<^verbatim>\<open>(id, score, cuantia)\<close> per candidate.\<close>

fun scored_loop ::
  "real list \<Rightarrow> meta \<Rightarrow> real \<Rightarrow> (int \<times> real list) list \<Rightarrow> licitacion list
     \<Rightarrow> error + (int \<times> real \<times> pyfloat) list" where
  "scored_loop t_vec t_meta pen cand_docvecs [] = Inr []"
| "scored_loop t_vec t_meta pen cand_docvecs (tup # cands) =
     (case map_of cand_docvecs (lic_id tup) of
        None \<Rightarrow> scored_loop t_vec t_meta pen cand_docvecs cands
      | Some c_vec \<Rightarrow>
          (case cosine_distance t_vec c_vec of
             Inl e \<Rightarrow> Inl e
           | Inr d \<Rightarrow>
               (case scored_loop t_vec t_meta pen cand_docvecs cands of
                  Inl e \<Rightarrow> Inl e
                | Inr rest \<Rightarrow>
                    Inr ((lic_id tup, d + penalty t_meta tup pen,
                          (case cuantia tup of None \<Rightarrow> NaN | Some c \<Rightarrow> float_of c)) # rest))))"

definition py_take :: "int \<Rightarrow> 'a list \<Rightarrow> 'a list" where
  \<comment> \<open>the slice \<^verbatim>\<open>xs[:k]\<close>; a negative \<open>k\<close> counts from the end\<close>
  "py_take k xs = (if 0 \<le> k then take (nat k) xs else take (nat (int (length xs) + k)) xs)"

definition skip_result ::
  "db \<Rightarrow> int \<Rightarrow> texto \<Rightarrow> string \<Rightarrow> FlagPrecioResult \<Rightarrow> error + (FlagPrecioResult \<times> db)" where
  \<comment> \<open>the three early exits: one flag write with value \<^verbatim>\<open>False\<close>, then the result\<close>
  "skip_result session lic comentario fuente res =
     (case set_flag_for_licitacion session lic ''red_precio'' False (Some comentario)
             (Some fuente) (Some ''pipeline'') None of
        Inl e \<Rightarrow> Inl e
      | Inr (fli, s') \<Rightarrow> Inr (res, s'))"

text \<open>Steps 4 and 5: the statistics over the neighbours' values and the flag.\<close>

definition valor_flag :: "pyfloat option \<Rightarrow> RobustStats \<Rightarrow> bool" where
  "valor_flag t_cuantia st =
     (case t_cuantia of
        None \<Rightarrow> False
      | Some t \<Rightarrow>
          if \<not> isfinite t then False
          else (let out_iqr = (pf_less t (rs_lower st) \<or> pf_less (rs_upper st) t);
                    out_mad = pf_le Z_MAD_THRESHOLD (fabs (rs_z_mad st))
                in out_iqr \<or> out_mad))"

definition comentario_precio :: "pyfloat option \<Rightarrow> RobustStats \<Rightarrow> nat \<Rightarrow> texto" where
  "comentario_precio t_cuantia st n_vec =
     (case t_cuantia of
        None \<Rightarrow> SinCuantia
      | Some t \<Rightarrow>
          if \<not> isfinite t then SinCuantia
          else (let dev_pct = (if rs_median st \<noteq> Fin 0 \<and> isfinite (rs_median st)
                               then Some (fdiv (fmul (Fin 100) (fsub t (rs_median st)))
                                            (rs_median st))
                               else None)
                in if valor_flag t_cuantia st
                   then PosibleOutlier t st dev_pct n_vec
                   else PrecioEnRango t st dev_pct n_vec))"

definition evaluate_top ::
  "db \<Rightarrow> int \<Rightarrow> int \<Rightarrow> pyfloat option \<Rightarrow> (int \<times> 'a \<times> pyfloat) list
     \<Rightarrow> error + (FlagPrecioResult \<times> db)" where
  \<comment> \<open>from \<^verbatim>\<open>vec_cuantias = np.array([x[2] for x in top], dtype=float)\<close> to the end;
      \<open>top_rows\<close> is the list \<^verbatim>\<open>top\<close>, \<open>kept\<close> are the rows the mask \<^verbatim>\<open>~np.isnan(vec_cuantias)\<close> keeps\<close>
  "evaluate_top session lic min_neighbors t_cuantia top_rows =
     (let kept = filter (\<lambda>x. \<not> isnan (snd (snd x))) top_rows;
          vec_cuantias = map (\<lambda>x. snd (snd x)) kept;
          vec_ids = map fst kept
      in if int (length vec_cuantias) < min_neighbors
         then skip_result session lic (PocosComparables (length vec_cuantias) min_neighbors)
                ''flag_precio_chunks_mean_cos(skip)''
                \<lparr>licitacion_id = lic, n_comparables = length vec_cuantias,
                 method_tag = ''chunks_mean_cos'', stats = empty_stats,
                 target_cuantia = t_cuantia, neighbor_ids = vec_ids\<rparr>
         else
           (let st = robust_stats vec_cuantias (case t_cuantia of None \<Rightarrow> NaN | Some t \<Rightarrow> t)
            in case set_flag_for_licitacion session lic ''red_precio'' (valor_flag t_cuantia st)
                      (Some (comentario_precio t_cuantia st (length vec_cuantias)))
                      (Some ''flag_precio_chunks_mean_cos'') (Some ''pipeline'') None of
                 Inl e \<Rightarrow> Inl e
               | Inr (fli, s') \<Rightarrow>
                   Inr (\<lparr>licitacion_id = lic, n_comparables = length vec_cuantias,
                         method_tag = ''chunks_mean_cos'', stats = st,
                         target_cuantia = t_cuantia, neighbor_ids = vec_ids\<rparr>, s')))"

definition evaluate_neighbors ::
  "db \<Rightarrow> int \<Rightarrow> int \<Rightarrow> int \<Rightarrow> pyfloat option \<Rightarrow> (int \<times> real \<times> pyfloat) list
     \<Rightarrow> error + (FlagPrecioResult \<times> db)" where
  \<comment> \<open>\<^verbatim>\<open>scored.sort(key=lambda x: x[1])\<close> and \<^verbatim>\<open>top = scored[:max(top_k, min_neighbors)]\<close>\<close>
  "evaluate_neighbors session lic top_k min_neighbors t_cuantia scored0 =
     (let scored = sort_key (\<lambda>x. fst (snd x)) scored0;
          top_rows = py_take (max top_k min_neighbors) scored
      in evaluate_top session lic min_neighbors t_cuantia top_rows)"

definition run_flag_precio_for_one ::
  "db \<Rightarrow> int \<Rightarrow> int \<Rightarrow> int \<Rightarrow> real \<Rightarrow> error + (FlagPrecioResult \<times> db)" where
  "run_flag_precio_for_one session0 lic top_k min_neighbors penalty_estado =
     (case find (\<lambda>l. lic_id l = lic) (licitaciones session0) of
        None \<Rightarrow> Inl (NoExiste lic)
      | Some target \<Rightarrow>
          (case ensure_flag_precio session0 of
             Inl e \<Rightarrow> Inl e
           | Inr session \<Rightarrow>
          (case fetch_target_docvec session lic of
             Inl e \<Rightarrow> Inl e
           | Inr t_vec0 \<Rightarrow>
               (let t_meta = fetch_target_meta session lic;
                    t_cuantia = m_cuantia t_meta
                in case t_vec0 of
                     None \<Rightarrow>
                       skip_result session lic SinEmbedding ''flag_precio(skip)''
                         \<lparr>licitacion_id = lic, n_comparables = 0, method_tag = ''skip'',
                          stats = empty_stats, target_cuantia = t_cuantia, neighbor_ids = []\<rparr>
                   | Some t_vec \<Rightarrow>
                       (let cands = fetch_candidate_headers session lic t_meta in
                        case fetch_candidate_chunks_docvecs session (map lic_id cands) of
                          Inl e \<Rightarrow> Inl e
                        | Inr cand_docvecs \<Rightarrow>
                            (case scored_loop t_vec t_meta penalty_estado cand_docvecs cands of
                               Inl e \<Rightarrow> Inl e
                             | Inr scored \<Rightarrow>
                                 if scored = []
                                 then skip_result session lic SinComparables
                                        ''flag_precio_chunks_mean_cos(skip)''
                                        \<lparr>licitacion_id = lic, n_comparables = 0,
                                         method_tag = ''skip'', stats = empty_stats,
                                         target_cuantia = t_cuantia, neighbor_ids = []\<rparr>
                                 else evaluate_neighbors session lic top_k min_neighbors
                                        t_cuantia scored))))))"

section \<open>The payload\<close>

text \<open>
  \<^verbatim>\<open>json_override\<close> is a JSON object.  It is modelled with its values typed: one optional
  field per key the pipeline reads (a missing key and a \<^verbatim>\<open>null\<close> are both \<open>None\<close>),
  strings where the code expects strings.  \<open>pl_otros\<close> lists any other keys, which
  only matter for the test \<^verbatim>\<open>not json_override\<close>.
\<close>

record trabajo_json =
  tj_cargo :: "string option"
  tj_entidad :: "string option"
  tj_anio_inicio :: "int option"
  tj_anio_fin :: "int option"
  tj_descripcion :: "string option"

record conexion_json =
  cj_con_id :: "string option"
  cj_con_nombre :: "string option"
  cj_tipo :: "string option"
  cj_fuente :: "string option"

record persona_json =
  pj_id :: "string option"
  pj_persona_id :: "string option"
  pj_nombre :: "string option"
  pj_Nombre :: "string option"
  pj_entidad :: "string option"
  pj_Entidad :: "string option"
  pj_ent_publica :: "bool option"
  pj_Ent_publica :: "bool option"
  pj_es_contratista :: "bool option"
  pj_trabajos :: "trabajo_json list option"
  pj_Anteriores_trabajos :: "trabajo_json list option"
  pj_anteriores_trabajos :: "trabajo_json list option"
  pj_conexiones :: "conexion_json list option"
  pj_conexion_directas :: "(string \<times> string option) list option"

record aprobador =
  ap_nombre :: "string option"
  ap_entidad :: "string option"
  ap_tipo_actor :: "string option"

record payload =
  pl_personas :: "persona_json list option"
  pl_aprobadores :: "aprobador list option"
  pl_contratistas :: "string list option"
  pl_threshold :: "int option"
  pl_holidays :: "string list option"
  pl_otros :: "string list"

definition empty_payload :: payload where
  \<comment> \<open>\<^verbatim>\<open>{}\<close>\<close>
  "empty_payload =
     \<lparr>pl_personas = None, pl_aprobadores = None, pl_contratistas = None,
      pl_threshold = None, pl_holidays = None, pl_otros = []\<rparr>"

definition falsy_payload :: "payload option \<Rightarrow> bool" where
  \<comment> \<open>\<^verbatim>\<open>not json_override\<close>: \<^verbatim>\<open>None\<close> or a dict without keys\<close>
  "falsy_payload j \<longleftrightarrow> j = None \<or> j = Some empty_payload"

definition or_empty :: "payload option \<Rightarrow> payload" where
  \<comment> \<open>\<^verbatim>\<open>json_override or {}\<close>\<close>
  "or_empty j = (case j of None \<Rightarrow> empty_payload | Some p \<Rightarrow> p)"

definition list_or :: "'a list option \<Rightarrow> 'a list" where
  \<comment> \<open>\<^verbatim>\<open>d.get(key) or []\<close>\<close>
  "list_or x = (case x of None \<Rightarrow> [] | Some xs \<Rightarrow> xs)"

section \<open>Results\<close>

text \<open>
  The dicts the flows return: a field is \<open>None\<close> when the dict has no such key.
\<close>

record match =
  oficial_id :: "string option"
  oficial_nombre :: "string option"
  contratista_id :: "string option"
  contratista_nombre :: "string option"
  path_ids :: "string option list"
  path_len :: int
  score :: int

datatype detail =
    DetailTexto texto
  | DetailPrecio string nat pyfloat pyfloat pyfloat pyfloat "int list"
    \<comment> \<open>method, n_comparables, median, z_mad, lower, upper, neighbors\<close>
  | DetailFecha int int string "datetime option" "datetime option"
    \<comment> \<open>dias_habiles, threshold, archivo, aceptacion_ofertas_ts, apertura_ofertas_ts\<close>
  | DetailRed string "string option list" "string option list" "match list"
    \<comment> \<open>lic_entidad, official_ids, contractor_ids, matches\<close>

record result =
  r_ok :: bool
  r_flow :: "string option"
  r_reason :: "string option"
  r_flag_applied :: "bool option"
  r_comment :: "texto option"
  r_detail :: "detail option"

record entry =
  e_flow :: string
  e_ok :: "bool option"
  e_error :: "string option"
  e_result :: "result option"

record run_result =
  rr_licitacion_id :: int
  rr_applied :: "entry list"

section \<open>Date-gap detector\<close>

definition FLAG_CODE_FECHA :: string where
  \<comment> \<open>\<^verbatim>\<open>FLAG_CODE\<close> of \<^verbatim>\<open>flag_fecha.py\<close>\<close>
  "FLAG_CODE_FECHA = ''F-GAP-APERT''"

definition ensure_flag_fecha :: "db \<Rightarrow> int \<Rightarrow> error + db" where
  \<comment> \<open>\<^verbatim>\<open>_ensure_flag(db, threshold)\<close>: update by code, or insert with \<^verbatim>\<open>MAX(id) + 1\<close>;
      the new row must fit the column \<^verbatim>\<open>codigo\<close>, which is \<^verbatim>\<open>String(10)\<close>\<close>
  "ensure_flag_fecha session threshold =
     (if \<exists>f \<in> set (flags_tbl session). f_codigo f = Some FLAG_CODE_FECHA
      then Inr (session\<lparr>flags_tbl :=
             map (\<lambda>f. if f_codigo f = Some FLAG_CODE_FECHA
                        then f\<lparr>f_nombre := Some NombreGap,
                               f_descripcion := Some (DescGap threshold)\<rparr>
                        else f)
               (flags_tbl session)\<rparr>)
      else if 10 < length FLAG_CODE_FECHA then Inl DataError
      else Inr (session\<lparr>flags_tbl := flags_tbl session @
             [\<lparr>f_id = next_id (map f_id (flags_tbl session)), f_codigo = Some FLAG_CODE_FECHA,
               f_nombre = Some NombreGap, f_descripcion = Some (DescGap threshold)\<rparr>]\<rparr>))"

definition calendario_row :: "db \<Rightarrow> int \<Rightarrow> secop_calendario_norm option" where
  \<comment> \<open>the join of \<^verbatim>\<open>licitacion_keymap\<close> and \<^verbatim>\<open>secop_calendario_norm\<close>, \<^verbatim>\<open>LIMIT 1\<close>\<close>
  "calendario_row session lic =
     (case concat (map (\<lambda>k. filter (\<lambda>n. Some (cal_archivo n) = km_lic_ext_id k)
                                (calendario session))
                    (filter (\<lambda>k. km_licitacion_id k = lic) (keymap session))) of
        [] \<Rightarrow> None
      | row # _ \<Rightarrow> Some row)"

definition run_flag_fecha_for_one :: "db \<Rightarrow> int \<Rightarrow> payload \<Rightarrow> error + (result \<times> db)" where
  "run_flag_fecha_for_one session lic json_override =
     (let threshold = (case pl_threshold json_override of None \<Rightarrow> 5 | Some t \<Rightarrow> t);
          holidays = set (list_or (pl_holidays json_override))
      in case calendario_row session lic of
           None \<Rightarrow>
             Inr (\<lparr>r_ok = False, r_flow = Some ''gap_fechas'', r_reason = Some ''sin_calendario'',
                   r_flag_applied = None, r_comment = None, r_detail = None\<rparr>, session)
         | Some row \<Rightarrow>
             (case business_days (cal_aceptacion_ofertas_ts row) (cal_apertura_ofertas_ts row)
                     (Some holidays) of
                None \<Rightarrow>
                  Inr (\<lparr>r_ok = False, r_flow = Some ''gap_fechas'',
                        r_reason = Some ''fechas_incompletas'',
                        r_flag_applied = None, r_comment = None, r_detail = None\<rparr>, session)
              | Some dias \<Rightarrow>
                  (case ensure_flag_fecha session threshold of
                     Inl e \<Rightarrow> Inl e
                   | Inr s1 \<Rightarrow>
                  (case set_flag_for_licitacion s1 lic
                          FLAG_CODE_FECHA (dias > threshold)
                          (Some (GapComentario dias threshold (cal_aceptacion_ofertas_ts row)
                                   (cal_apertura_ofertas_ts row) (cal_archivo row)))
                          (Some ''pipe:gap_fechas'') (Some ''pipeline'') None of
                     Inl e \<Rightarrow> Inl e
                   | Inr (fli, s') \<Rightarrow>
                       Inr (\<lparr>r_ok = True, r_flow = Some ''gap_fechas'', r_reason = None,
                             r_flag_applied = Some (dias > threshold), r_comment = None,
                             r_detail = Some (DetailFecha dias threshold (cal_archivo row)
                                                (cal_aceptacion_ofertas_ts row)
                                                (cal_apertura_ofertas_ts row))\<rparr>, s')))))"

section \<open>Contact-network detector\<close>

definition FLAG_CODE_RED :: string where "FLAG_CODE_RED = ''red_contac''"
definition FLAG_NAME_RED :: string where "FLAG_NAME_RED = ''Red de contactos''"
definition FLAG_DESC_RED :: string where "FLAG_DESC_RED = ''Posible conflicto por red de contactos''"

record Trabajo =
  tr_cargo :: "string option"
  tr_entidad :: "string option"
  tr_anio_inicio :: "int option"
  tr_anio_fin :: "int option"
  tr_descripcion :: "string option"

record Persona =
  p_id :: "string option"
  p_nombre :: "string option"
  p_entidad :: "string option"
  p_ent_publica :: "bool option"
  p_es_contratista :: bool
  p_trabajos :: "Trabajo list"
  p_conexiones :: "conexion_json list"

definition safe_str :: "string option \<Rightarrow> string option" where
  \<comment> \<open>\<^verbatim>\<open>_safe_str\<close>: the stripped string, \<^verbatim>\<open>None\<close> when nothing is left\<close>
  "safe_str x =
     (case x of None \<Rightarrow> None | Some s \<Rightarrow> if strip s = [] then None else Some (strip s))"

definition lower_char :: "char \<Rightarrow> char" where
  "lower_char c =
     (let k = (of_char c :: nat) in if 65 \<le> k \<and> k \<le> 90 then char_of (k + 32) else c)"

definition norm_name :: "string option \<Rightarrow> string option" where
  \<comment> \<open>\<^verbatim>\<open>_norm_name\<close>: \<^verbatim>\<open>_safe_str(x.lower()) if x else None\<close>; ASCII letters\<close>
  "norm_name x = (if truthy x then safe_str (Some (map lower_char (the x))) else None)"

fun first_truthy :: "string option list \<Rightarrow> string \<Rightarrow> string option" where
  \<comment> \<open>\<^verbatim>\<open>a or b or ... or d\<close>\<close>
  "first_truthy [] d = Some d"
| "first_truthy (x # xs) d = (if truthy x then x else first_truthy xs d)"

definition from_v2_people :: "payload \<Rightarrow> Persona list \<times> aprobador list" where
  "from_v2_people json_override =
     (map (\<lambda>p.
        \<lparr>p_id = safe_str (first_truthy [pj_id p, pj_persona_id p, pj_nombre p] []),
         p_nombre = safe_str (first_truthy [pj_nombre p, pj_id p] ''persona_sin_nombre''),
         p_entidad = safe_str (pj_entidad p),
         p_ent_publica = pj_ent_publica p,
         p_es_contratista = (case pj_es_contratista p of None \<Rightarrow> False | Some b \<Rightarrow> b),
         p_trabajos =
           map (\<lambda>t. \<lparr>tr_cargo = safe_str (tj_cargo t), tr_entidad = safe_str (tj_entidad t),
                      tr_anio_inicio = tj_anio_inicio t, tr_anio_fin = tj_anio_fin t,
                      tr_descripcion = safe_str (tj_descripcion t)\<rparr>)
             (list_or (pj_trabajos p)),
         p_conexiones =
           map (\<lambda>c. \<lparr>cj_con_id = safe_str (cj_con_id c), cj_con_nombre = safe_str (cj_con_nombre c),
                      cj_tipo = safe_str (cj_tipo c), cj_fuente = safe_str (cj_fuente c)\<rparr>)
             (list_or (pj_conexiones p))\<rparr>)
        (list_or (pl_personas json_override)),
      list_or (pl_aprobadores json_override))"

definition from_v1_people :: "payload \<Rightarrow> Persona list" where
  \<comment> \<open>the older shape: capitalised keys, connections as a dict from name to \<^verbatim>\<open>{id: ...}\<close>;
      \<^verbatim>\<open>"conexiones"\<close> holds a list here, which \<^verbatim>\<open>isinstance(conn_map, dict)\<close> turns down\<close>
  "from_v1_people json_override =
     map (\<lambda>p.
        (let nombre = safe_str (first_truthy [pj_Nombre p] (str_or (pj_nombre p) []));
             pid = safe_str (first_truthy [pj_id p, nombre] []);
             at_list = (if list_or (pj_Anteriores_trabajos p) \<noteq> []
                        then list_or (pj_Anteriores_trabajos p)
                        else list_or (pj_anteriores_trabajos p))
         in \<lparr>p_id = first_truthy [pid, nombre] [],
             p_nombre = first_truthy [nombre, pid] ''persona_sin_nombre'',
             p_entidad = safe_str (first_truthy [pj_Entidad p] (str_or (pj_entidad p) [])),
             p_ent_publica = (case pj_Ent_publica p of None \<Rightarrow> pj_ent_publica p | Some b \<Rightarrow> Some b),
             p_es_contratista = (case pj_es_contratista p of None \<Rightarrow> False | Some b \<Rightarrow> b),
             p_trabajos =
               map (\<lambda>t. \<lparr>tr_cargo = safe_str (tj_cargo t), tr_entidad = None, tr_anio_inicio = None,
                          tr_anio_fin = None, tr_descripcion = None\<rparr>) at_list,
             p_conexiones =
               map (\<lambda>(nom, meta_id).
                      \<lparr>cj_con_id = safe_str meta_id, cj_con_nombre = safe_str (Some nom),
                       cj_tipo = None, cj_fuente = None\<rparr>)
                 (list_or (pj_conexion_directas p))\<rparr>))
       (list_or (pl_personas json_override))"

subsection \<open>The graph\<close>

definition add_edge ::
  "string option adjacency \<Rightarrow> string option \<Rightarrow> string option \<Rightarrow> string option adjacency" where
  \<comment> \<open>\<^verbatim>\<open>adj.setdefault(a, set()).add(b)\<close>\<close>
  "add_edge adj a b =
     adj(a \<mapsto> (if b \<in> set (adj_get adj a) then adj_get adj a else adj_get adj a @ [b]))"

definition name_index :: "Persona list \<Rightarrow> (string option \<times> string option) list" where
  \<comment> \<open>normalised name and id of every person with a name, in the order of the list\<close>
  "name_index people =
     map (\<lambda>p. (norm_name (p_nombre p), p_id p)) (filter (\<lambda>p. truthy (p_nombre p)) people)"

definition connect ::
  "(string option \<rightharpoonup> string option) \<Rightarrow> Persona \<Rightarrow> string option adjacency \<Rightarrow> conexion_json
     \<Rightarrow> string option adjacency" where
  \<comment> \<open>the body of \<^verbatim>\<open>for c in (p.conexiones or [])\<close>\<close>
  "connect name_to_id p adj c =
     (let target = (if truthy (safe_str (cj_con_id c)) then safe_str (cj_con_id c)
                    else (case name_to_id (norm_name (cj_con_nombre c)) of
                            None \<Rightarrow> None | Some i \<Rightarrow> i))
      in if truthy target \<and> target \<noteq> p_id p
         then add_edge (add_edge adj (p_id p) target) target (p_id p)
         else adj)"

definition build_graph ::
  "Persona list \<Rightarrow> (string option \<rightharpoonup> Persona) \<times> string option adjacency" where
  "build_graph people =
     (let by_id = map_of (rev (map (\<lambda>p. (p_id p, p)) people));
          name_to_id = map_of (name_index people);
          adj0 = (\<lambda>k. if k \<in> set (map p_id people) then Some [] else None);
          adj = fold (\<lambda>p a. fold (\<lambda>c a'. connect name_to_id p a' c) (p_conexiones p) a)
                  people adj0
      in (by_id, adj))"

subsection \<open>Officials and contractors\<close>

definition dedup :: "'a list \<Rightarrow> 'a list" where
  \<comment> \<open>\<^verbatim>\<open>list(dict.fromkeys(xs))\<close>: the first occurrence of each element, in order\<close>
  "dedup xs = rev (remdups (rev xs))"

definition pick_official_ids ::
  "string option \<Rightarrow> Persona list \<Rightarrow> aprobador list \<Rightarrow> string option list" where
  "pick_official_ids lic_entidad people aprobadores =
     (let lic_ent = norm_name lic_entidad;
          ids = map (\<lambda>ap. str_or (safe_str (ap_nombre ap)) [])
                  (filter (\<lambda>ap. norm_name (ap_tipo_actor ap) = Some ''publico''
                                \<and> (\<not> truthy lic_ent \<or> norm_name (ap_entidad ap) = lic_ent))
                     aprobadores);
          by_name = map_of (rev (name_index people));
          mapped = filter truthy
                     (List.map_filter (\<lambda>n. by_name (norm_name (Some n))) ids)
      in dedup (if mapped = []
                then map p_id (filter (\<lambda>p. p_ent_publica p = Some True \<and> truthy lic_ent
                                            \<and> norm_name (p_entidad p) = lic_ent) people)
                else mapped))"

definition pick_contractor_ids :: "Persona list \<Rightarrow> payload \<Rightarrow> string option list" where
  "pick_contractor_ids people json_override =
     (let first = map p_id (filter p_es_contratista people);
          by_name = map_of (rev (name_index people));
          extra = filter truthy
                    (List.map_filter (\<lambda>n. by_name (norm_name (Some n)))
                       (list_or (pl_contratistas json_override)))
      in dedup (first @ extra))"

definition score_path :: "string option list \<Rightarrow> int" where
  "score_path path = (if length path = 2 then 30 else 18) + 0"

subsection \<open>\<^verbatim>\<open>run_red_contactos\<close>\<close>

definition nombre_de :: "(string option \<rightharpoonup> Persona) \<Rightarrow> string option \<Rightarrow> string option" where
  \<comment> \<open>\<^verbatim>\<open>by_id.get(x).nombre if by_id.get(x) else x\<close>\<close>
  "nombre_de by_id x = (case by_id x of None \<Rightarrow> x | Some p \<Rightarrow> p_nombre p)"

text \<open>
  The two nested loops over officials and contractors.  The state is
  \<^verbatim>\<open>(matches, best, best_score)\<close>.
\<close>

type_synonym search_state =
  "match list \<times> (string option \<times> string option \<times> string option list) option \<times> int"

definition try_pair ::
  "(string option \<rightharpoonup> Persona) \<Rightarrow> string option adjacency \<Rightarrow> string option \<Rightarrow> search_state
     \<Rightarrow> string option \<Rightarrow> search_state" where
  "try_pair by_id adj oid st cid =
     (case st of (matches, best, best_score) \<Rightarrow>
        (case shortest_path adj oid cid 2 of
           None \<Rightarrow> st
         | Some path \<Rightarrow>
             (let s = score_path path;
                  (best', best_score') =
                     (if s > best_score then (Some (oid, cid, path), s) else (best, best_score))
              in (matches @
                    [\<lparr>oficial_id = oid, oficial_nombre = nombre_de by_id oid,
                      contratista_id = cid, contratista_nombre = nombre_de by_id cid,
                      path_ids = path, path_len = int (length path) - 1, score = s\<rparr>],
                  best', best_score'))))"

definition find_matches ::
  "(string option \<rightharpoonup> Persona) \<Rightarrow> string option adjacency \<Rightarrow> string option list
     \<Rightarrow> string option list \<Rightarrow> search_state" where
  "find_matches by_id adj official_ids contractor_ids =
     fold (\<lambda>oid st. fold (\<lambda>cid st'. try_pair by_id adj oid st' cid) contractor_ids st)
       official_ids ([], None, - (10 ^ 9))"

definition no_match_comment ::
  "(string option \<rightharpoonup> Persona) \<Rightarrow> string option adjacency \<Rightarrow> string option list \<Rightarrow> texto" where
  \<comment> \<open>the \<^verbatim>\<open>else\<close> branch: the official of highest degree, first among equals\<close>
  "no_match_comment by_id adj official_ids =
     (let degs = sort_key (\<lambda>x. - int (snd x))
                   (map (\<lambda>oid. (oid, length (adj_get adj oid))) official_ids);
          top = (case degs of [] \<Rightarrow> (None, 0) | d # _ \<Rightarrow> d)
      in if truthy (fst top) \<and> snd top \<ge> 5
         then ConectividadAlta (nombre_de by_id (fst top)) (snd top)
         else SinEvidencias)"

definition ensure_flag_exists :: "db \<Rightarrow> string \<Rightarrow> string \<Rightarrow> string \<Rightarrow> error + db" where
  "ensure_flag_exists session codigo nombre descripcion =
     upsert_flag session codigo (Texto nombre) (Texto descripcion)"

definition run_red_contactos :: "db \<Rightarrow> int \<Rightarrow> payload \<Rightarrow> error + (result \<times> db)" where
  "run_red_contactos session lic json_override =
     (case find (\<lambda>l. lic_id l = lic) (licitaciones session) of
        None \<Rightarrow>
          Inr (\<lparr>r_ok = False, r_flow = None, r_reason = None, r_flag_applied = None,
                r_comment = None, r_detail = Some (DetailTexto LicitacionNoExiste)\<rparr>, session)
      | Some row \<Rightarrow>
          if json_override = empty_payload
          then Inr (\<lparr>r_ok = True, r_flow = None, r_reason = None, r_flag_applied = Some False,
                     r_comment = None, r_detail = Some (DetailTexto JsonVacio)\<rparr>, session)
          else
            (let (people_v2, aprobadores_v2) = from_v2_people json_override;
                 (people, aprobadores) =
                    (if people_v2 \<noteq> [] then (people_v2, aprobadores_v2)
                     else (from_v1_people json_override,
                           (case pl_aprobadores json_override of None \<Rightarrow> [] | Some a \<Rightarrow> a)))
             in if people = []
                then Inr (\<lparr>r_ok = True, r_flow = None, r_reason = None,
                           r_flag_applied = Some False, r_comment = None,
                           r_detail = Some (DetailTexto SinPersonas)\<rparr>, session)
                else
                  (let (by_id, adj) = build_graph people;
                       official_ids = pick_official_ids (Some (entidad row)) people aprobadores;
                       contractor_ids = pick_contractor_ids people json_override;
                       (matches, best, best_score) =
                          find_matches by_id adj official_ids contractor_ids;
                       (comment, apply_flag) =
                          (case best of
                             Some (oid, cid, path) \<Rightarrow>
                               (MejorCoincidencia (nombre_de by_id oid) (nombre_de by_id cid)
                                  (length path - 1) (length matches), True)
                           | None \<Rightarrow> (no_match_comment by_id adj official_ids, False))
                   in case ensure_flag_exists session FLAG_CODE_RED FLAG_NAME_RED FLAG_DESC_RED of
                        Inl e \<Rightarrow> Inl e
                      | Inr s1 \<Rightarrow>
                     (case set_flag_for_licitacion s1
                             lic FLAG_CODE_RED apply_flag (Some comment)
                             (Some ''pipeline.redcontactos(json-v2)'') (Some ''pipeline'') None of
                        Inl e \<Rightarrow> Inl e
                      | Inr (fli, s') \<Rightarrow>
                          Inr (\<lparr>r_ok = True, r_flow = None, r_reason = None,
                                r_flag_applied = Some apply_flag, r_comment = Some comment,
                                r_detail = Some (DetailRed (entidad row) official_ids
                                                   contractor_ids matches)\<rparr>, s')))))"

section \<open>The orchestrator\<close>

text \<open>
  \<^verbatim>\<open>app/pipes/pipeline.py\<close>.  \<^verbatim>\<open>HAS_PRECIO\<close> and \<^verbatim>\<open>HAS_GAP_FECHA\<close> record
  whether the detector modules could be imported.
\<close>

record config =
  HAS_PRECIO :: bool
  HAS_GAP_FECHA :: bool

definition get_computable_flows :: "config \<Rightarrow> string list" where
  "get_computable_flows cfg =
     (if HAS_PRECIO cfg then [''red_precio''] else [])
     @ (if HAS_GAP_FECHA cfg then [''gap_fechas''] else [])"

definition get_interactive_flows :: "string list" where
  "get_interactive_flows = [''red_contactos'']"

definition get_available_flows :: "config \<Rightarrow> string list" where
  "get_available_flows cfg = get_computable_flows cfg @ get_interactive_flows @ [''all'']"

definition precio_flag_applied :: "FlagPrecioResult \<Rightarrow> bool" where
  \<comment> \<open>the \<^verbatim>\<open>"flag_applied"\<close> expression of \<^verbatim>\<open>_run_one_flow\<close>\<close>
  "precio_flag_applied res =
     (case target_cuantia res of
        None \<Rightarrow> False
      | Some t \<Rightarrow>
          pf_less t (rs_lower (stats res))
          \<or> pf_less (rs_upper (stats res)) t
          \<or> pf_le (rnd (28 / 10)) (fabs (rs_z_mad (stats res))))"

definition run_one_flow ::
  "config \<Rightarrow> db \<Rightarrow> int \<Rightarrow> string \<Rightarrow> payload option \<Rightarrow> error + (entry \<times> db)" where
  "run_one_flow cfg session lic flow json_override =
     (if flow = ''red_contactos'' then
        (if falsy_payload json_override
         then Inr (\<lparr>e_flow = ''red_contactos'', e_ok = Some False,
                     e_error = Some ''json_required'', e_result = None\<rparr>, session)
         else (case run_red_contactos session lic (or_empty json_override) of
                 Inl e \<Rightarrow> Inl e
               | Inr (r, s') \<Rightarrow>
                   Inr (\<lparr>e_flow = ''red_contactos'', e_ok = None, e_error = None,
                         e_result = Some r\<rparr>, s')))
      else if flow = ''red_precio'' \<and> HAS_PRECIO cfg then
        (case run_flag_precio_for_one session lic TOP_K MIN_NEIGHBORS_FOR_STATS PENALTY_ESTADO of
           Inl e \<Rightarrow> Inl e
         | Inr (res, s') \<Rightarrow>
             Inr (\<lparr>e_flow = ''red_precio'', e_ok = None, e_error = None,
                   e_result = Some
                     \<lparr>r_ok = True, r_flow = None, r_reason = None,
                      r_flag_applied = Some (precio_flag_applied res),
                      r_comment = None,
                      r_detail = Some (DetailPrecio (method_tag res) (n_comparables res)
                                         (rs_median (stats res)) (rs_z_mad (stats res))
                                         (rs_lower (stats res)) (rs_upper (stats res))
                                         (neighbor_ids res))\<rparr>\<rparr>, s'))
      else if flow = ''gap_fechas'' \<and> HAS_GAP_FECHA cfg then
        (case run_flag_fecha_for_one session lic (or_empty json_override) of
           Inl e \<Rightarrow> Inl e
         | Inr (r, s') \<Rightarrow>
             Inr (\<lparr>e_flow = ''gap_fechas'', e_ok = None, e_error = None,
                   e_result = Some r\<rparr>, s'))
      else Inl (FlowDesconocido flow))"

text \<open>
  The list comprehension \<^verbatim>\<open>[_run_one_flow(db, licitacion_id, f, json_override) for f in flows]\<close>:
  the flows run in order on the store the previous one left; an exception ends the
  comprehension.
\<close>

fun run_flows ::
  "config \<Rightarrow> db \<Rightarrow> int \<Rightarrow> payload option \<Rightarrow> string list \<Rightarrow> error + (entry list \<times> db)" where
  "run_flows cfg session lic json_override [] = Inr ([], session)"
| "run_flows cfg session lic json_override (f # flows) =
     (case run_one_flow cfg session lic f json_override of
        Inl e \<Rightarrow> Inl e
      | Inr (en, s1) \<Rightarrow>
          (case run_flows cfg s1 lic json_override flows of
             Inl e \<Rightarrow> Inl e
           | Inr (ens, s2) \<Rightarrow> Inr (en # ens, s2)))"

definition run_flow_for_one ::
  "config \<Rightarrow> db \<Rightarrow> int \<Rightarrow> string \<Rightarrow> payload option \<Rightarrow> error + (run_result \<times> db)" where
  "run_flow_for_one cfg session lic flow json_override =
     (let flows = (if flow = ''all'' then get_computable_flows cfg else [flow])
      in case run_flows cfg session lic json_override flows of
           Inl e \<Rightarrow> Inl e
         | Inr (applied, s') \<Rightarrow> Inr (\<lparr>rr_licitacion_id = lic, rr_applied = applied\<rparr>, s'))"

text \<open>
  \<^verbatim>\<open>run_flow_batch\<close>.  \<^verbatim>\<open>where_clause\<close> is SQL text spliced into the query; it is
  modelled as the predicate on rows it denotes.  \<^verbatim>\<open>if limit:\<close> skips the
  \<^verbatim>\<open>LIMIT\<close> for \<^verbatim>\<open>None\<close> and for 0.
\<close>

definition candidate_ids ::
  "db \<Rightarrow> (licitacion \<Rightarrow> bool) option \<Rightarrow> int option \<Rightarrow> error + int list" where
  "candidate_ids session where_clause limit =
     (let rows = (case where_clause of
                    None \<Rightarrow> licitaciones session
                  | Some w \<Rightarrow> filter w (licitaciones session));
          ids = sort (map lic_id rows)
      in case limit of
           None \<Rightarrow> Inr ids
         | Some l \<Rightarrow>
             if l = 0 then Inr ids
             else if l < 0 then Inl LimitNegativo
             else Inr (take (nat l) ids))"

fun batch_loop ::
  "config \<Rightarrow> db \<Rightarrow> string \<Rightarrow> payload option \<Rightarrow> int list \<Rightarrow> error + (run_result list \<times> db)" where
  "batch_loop cfg session ksflow json_override [] = Inr ([], session)"
| "batch_loop cfg session ksflow json_override (lid # lic_ids) =
     (case run_flow_for_one cfg session lid ksflow json_override of
        Inl e \<Rightarrow> Inl e
      | Inr (r, s1) \<Rightarrow>
          (case batch_loop cfg s1 ksflow json_override lic_ids of
             Inl e \<Rightarrow> Inl e
           | Inr (out, s2) \<Rightarrow> Inr (r # out, s2)))"

definition run_flow_batch ::
  "config \<Rightarrow> db \<Rightarrow> string \<Rightarrow> int list option \<Rightarrow> (licitacion \<Rightarrow> bool) option \<Rightarrow> int option
     \<Rightarrow> payload option \<Rightarrow> error + (run_result list \<times> db)" where
  "run_flow_batch cfg session ksflow lic_ids where_clause limit json_override =
     (if ksflow \<noteq> ''all'' \<and> ksflow \<notin> set (get_computable_flows cfg)
         \<and> ksflow = ''red_contactos'' \<and> falsy_payload json_override
      then Inl RequiereJson
      else if ksflow \<noteq> ''all'' \<and> ksflow \<notin> set (get_computable_flows cfg)
         \<and> ksflow = ''red_contactos'' \<and> list_or lic_ids = []
      then Inl RequiereLicIds
      else if ksflow \<noteq> ''all'' \<and> ksflow \<notin> set (get_computable_flows cfg)
         \<and> ksflow \<noteq> ''red_contactos''
      then Inl (FlowDesconocido ksflow)
      else
        (case (case lic_ids of
                 None \<Rightarrow> candidate_ids session where_clause limit
               | Some ids \<Rightarrow> Inr ids) of
           Inl e \<Rightarrow> Inl e
         | Inr ids \<Rightarrow> batch_loop cfg session ksflow json_override ids))"

definition processed_ids :: "error + (run_result list \<times> db) \<Rightarrow> error + int list" where
  \<comment> \<open>the entity ids of a batch's results, in the order of the returned list\<close>
  "processed_ids r = (case r of Inl e \<Rightarrow> Inl e | Inr (out, s) \<Rightarrow> Inr (map rr_licitacion_id out))"

definition matching_ids :: "db \<Rightarrow> (licitacion \<Rightarrow> bool) option \<Rightarrow> int list" where
  \<comment> \<open>the ids of the persisted entities that satisfy the filter, in ascending order\<close>
  "matching_ids s w =
     sort (map lic_id (case w of None \<Rightarrow> licitaciones s | Some p \<Rightarrow> filter p (licitaciones s)))"

section \<open>A small store\<close>

text \<open>
  Five entities with the ids 1, 2, 3, 5 and 8, no chunk embeddings, no flags yet, and a
  calendar record for entity 2.  Day 739194 is Monday 2024-11-04.
\<close>

definition demo_lic :: "int \<Rightarrow> licitacion" where
  "demo_lic i =
     \<lparr>lic_id = i, entidad = ''Alcaldia'', modalidad = Some ''Licitacion publica'',
      act_econ = Some ''Obras'', estado = Some ''Abierta'', cuantia = Some (Num 1000)\<rparr>"

definition demo_store :: db where
  "demo_store =
     \<lparr>licitaciones = [demo_lic 1, demo_lic 2, demo_lic 3, demo_lic 5, demo_lic 8],
      flags_tbl = [],
      flags_licitaciones_tbl = [],
      flags_log_tbl = [],
      chunks = [],
      keymap = [\<lparr>km_licitacion_id = 2, km_lic_ext_id = Some ''EXT-2''\<rparr>],
      calendario =
        [\<lparr>cal_archivo = ''EXT-2'',
          cal_aceptacion_ofertas_ts = Some \<lparr>ordinal = 739194, micros = 0\<rparr>,
          cal_apertura_ofertas_ts = Some \<lparr>ordinal = 739201, micros = 0\<rparr>\<rparr>],
      now = \<lparr>ordinal = 739195, micros = 0\<rparr>\<rparr>"

definition demo_config :: config where
  "demo_config = \<lparr>HAS_PRECIO = True, HAS_GAP_FECHA = True\<rparr>"

text \<open>
  A payload with three persons.  Ana works for the entity of the store and is also tagged
  as a contractor; Beto is a contractor whom Ana declares as a connection; Caro is nobody's
  connection.
\<close>

definition demo_persona :: "string \<Rightarrow> string \<Rightarrow> bool \<Rightarrow> bool \<Rightarrow> string list \<Rightarrow> persona_json" where
  "demo_persona pid ent pub con conns =
     \<lparr>pj_id = Some pid, pj_persona_id = None, pj_nombre = Some pid, pj_Nombre = None,
      pj_entidad = Some ent, pj_Entidad = None, pj_ent_publica = Some pub,
      pj_Ent_publica = None, pj_es_contratista = Some con, pj_trabajos = None,
      pj_Anteriores_trabajos = None, pj_anteriores_trabajos = None,
      pj_conexiones =
        Some (map (\<lambda>c. \<lparr>cj_con_id = Some c, cj_con_nombre = None, cj_tipo = Some ''socio'',
                           cj_fuente = None\<rparr>) conns),
      pj_conexion_directas = None\<rparr>"

definition demo_payload :: payload where
  "demo_payload =
     \<lparr>pl_personas = Some [demo_persona ''ana'' ''Alcaldia'' True True [''beto''],
                          demo_persona ''beto'' ''Obras SA'' False True [],
                          demo_persona ''caro'' ''Obras SA'' False False []],
      pl_aprobadores = None, pl_contratistas = None, pl_threshold = None,
      pl_holidays = None, pl_otros = []\<rparr>"

text \<open>
  The neighbours of a price evaluation: id, score and value.  Ten of them have a value,
  nine times 100 and once 1000000; neighbour 13 has none.
\<close>

definition demo_scored :: "(int \<times> real \<times> pyfloat) list" where
  "demo_scored =
     [(12, 3 / 10, Fin 100), (11, 1 / 20, Fin 1000000), (13, 1 / 10, NaN),
      (14, 2 / 5, Fin 100), (15, 1 / 5, Fin 100), (16, 1 / 2, Fin 100), (17, 3 / 5, Fin 100),
      (18, 7 / 10, Fin 100), (19, 4 / 5, Fin 100), (20, 9 / 10, Fin 100), (21, 1, Fin 100)]"

text \<open>
  Ten neighbours' values, as the column holds them, and a target of 86.60.  In exact
  arithmetic the median is 30.6, the MAD 13.49 and the z-score \<open>0.6745 * 56 / 13.49 = 2.8\<close>.
\<close>

definition close_values :: "numeric list" where
  "close_values =
     [Num (1711 / 100), Num (1711 / 100), Num (1711 / 100), Num (306 / 10), Num (306 / 10),
      Num (306 / 10), Num 60, Num 60, Num 60, Num 60]"

text \<open>
  A store for the price detector: the target 1 with the value 1000 and three other
  entities with the values 100, 200 and 400, each with one chunk embedding.
\<close>

definition vec_lic :: "int \<Rightarrow> real \<Rightarrow> licitacion" where
  "vec_lic i c = (demo_lic i)\<lparr>cuantia := Some (Num c)\<rparr>"

definition vec_chunk :: "int \<Rightarrow> licitacion_chunk" where
  "vec_chunk i = \<lparr>ch_id = i, ch_licitacion_id = i, ch_embedding_vec = Some [Fin 1, Fin 0]\<rparr>"

definition vec_store :: db where
  "vec_store =
     demo_store\<lparr>licitaciones := [vec_lic 1 1000, vec_lic 2 100, vec_lic 3 200, vec_lic 4 400],
                chunks := [vec_chunk 1, vec_chunk 2, vec_chunk 3, vec_chunk 4]\<rparr>"

section \<open>Verified properties\<close>

subsection \<open>Bounded search\<close>

text \<open>
  C2.  The claim: with \<^verbatim>\<open>max_depth=2\<close> the search returns only paths of at most two
  hops, and in the chain A - B - C - D the pair (A, D) is not found.  The code returns the
  three-hop path for (A, D): a node is compared with the destination before the depth of
  the new path is looked at, and the depth test at the head of the loop body is a
  \<^verbatim>\<open>pass\<close>.  The pair (A, C) is found with two hops, as claimed.
\<close>

theorem shortest_path_chain:
  "shortest_path chain_graph ''A'' ''D'' 2 = Some [''A'', ''B'', ''C'', ''D'']
   \<and> shortest_path chain_graph ''A'' ''C'' 2 = Some [''A'', ''B'', ''C'']"
  by (simp add: shortest_path_def chain_graph_def adj_get_def)

subsection \<open>Business days\<close>

lemma count_days_weekend:
  "\<forall>x. cur \<le> x \<and> x < end \<longrightarrow> 5 \<le> weekday x \<Longrightarrow> count_days h cur end d = d"
proof (induction h cur "end" d rule: count_days.induct)
  case (1 holidays cur "end" days)
  show ?case
  proof (cases "cur < end")
    case True
    with "1.prems" have wk: "\<not> weekday cur < 5" by force
    from "1.prems" have "\<forall>x. cur + 1 \<le> x \<and> x < end \<longrightarrow> 5 \<le> weekday x" by simp
    with "1.IH" [OF True] wk
    have "count_days holidays (cur + 1) end days = days" by simp
    with True wk show ?thesis by (subst count_days.simps) simp
  next
    case False
    then show ?thesis by (subst count_days.simps) simp
  qed
qed

lemma count_days_empty: "\<not> cur < end \<Longrightarrow> count_days h cur end d = d"
  by (subst count_days.simps) simp

lemma count_days_step:
  "cur < end \<Longrightarrow> h = None \<or> h = Some {} \<Longrightarrow>
   count_days h cur end d = count_days h (cur + 1) end (if weekday cur < 5 then d + 1 else d)"
  by (subst count_days.simps) auto

lemma weekday_shift: "weekday m = 0 \<Longrightarrow> 0 \<le> k \<Longrightarrow> k < 7 \<Longrightarrow> weekday (m + k) = k"
  unfolding weekday_def by presburger

lemma count_days_week:
  assumes m: "weekday m = 0" and h: "h = None \<or> h = Some {}"
  shows "count_days h m (m + 7) 0 = 5"
proof -
  have w: "weekday m < 5" "weekday (m + 1) < 5" "weekday (m + 1 + 1) < 5"
    "weekday (m + 1 + 1 + 1) < 5" "weekday (m + 1 + 1 + 1 + 1) < 5"
    "\<not> weekday (m + 1 + 1 + 1 + 1 + 1) < 5" "\<not> weekday (m + 1 + 1 + 1 + 1 + 1 + 1) < 5"
    using weekday_shift [OF m, of 0] weekday_shift [OF m, of 1] weekday_shift [OF m, of 2]
      weekday_shift [OF m, of 3] weekday_shift [OF m, of 4] weekday_shift [OF m, of 5]
      weekday_shift [OF m, of 6]
    by (simp_all add: add.assoc)
  show ?thesis
    using w by (simp add: count_days_step [OF _ h] count_days_empty)
qed

lemma business_days_sym: "business_days d1 d2 h = business_days d2 d1 h"
proof (cases d1)
  case None
  then show ?thesis by (cases d2) (simp_all add: business_days_def)
next
  case a: (Some a)
  show ?thesis
  proof (cases d2)
    case None
    with a show ?thesis by (simp add: business_days_def)
  next
    case b: (Some b)
    consider "dt_less a b" | "dt_less b a" | "\<not> dt_less a b" "\<not> dt_less b a" by blast
    then show ?thesis
    proof cases
      case 1
      then have "\<not> dt_less b a" by (auto simp: dt_less_def)
      with 1 a b show ?thesis by (simp add: business_days_def)
    next
      case 2
      then have "\<not> dt_less a b" by (auto simp: dt_less_def)
      with 2 a b show ?thesis by (simp add: business_days_def)
    next
      case 3
      then have "ordinal a = ordinal b" by (auto simp: dt_less_def)
      with 3 a b show ?thesis by (simp add: business_days_def)
    qed
  qed
qed

text \<open>
  C5.  The business-day count is symmetric in its two dates, for every holiday set; it is 0
  for two equal dates; it is 0 when the span from \<open>a\<close> to \<open>b\<close> lies inside one weekend
  (\<open>a\<close> is a Saturday or a Sunday and \<open>b\<close> is no later than that weekend's Sunday); and
  it is 5 from a Monday to the Monday after it when there are no holidays.
\<close>

theorem business_days_properties:
  "business_days d1 d2 h = business_days d2 d1 h
   \<and> business_days (Some d) (Some d) h = Some 0
   \<and> (5 \<le> weekday (ordinal a) \<and> ordinal a \<le> ordinal b
        \<and> ordinal b - ordinal a \<le> 6 - weekday (ordinal a)
      \<longrightarrow> business_days (Some a) (Some b) h = Some 0)
   \<and> (weekday (ordinal a) = 0 \<and> ordinal b = ordinal a + 7 \<and> (h = None \<or> h = Some {})
      \<longrightarrow> business_days (Some a) (Some b) h = Some 5)"
proof (intro conjI impI)
  show "business_days d1 d2 h = business_days d2 d1 h" by (rule business_days_sym)
  show "business_days (Some d) (Some d) h = Some 0"
    by (simp add: business_days_def dt_less_def count_days_empty)
next
  assume "5 \<le> weekday (ordinal a) \<and> ordinal a \<le> ordinal b
        \<and> ordinal b - ordinal a \<le> 6 - weekday (ordinal a)"
  then have w: "5 \<le> weekday (ordinal a)" and le: "ordinal a \<le> ordinal b"
    and span: "ordinal b - ordinal a \<le> 6 - weekday (ordinal a)" by simp_all
  have "\<forall>x. ordinal a \<le> x \<and> x < ordinal b \<longrightarrow> 5 \<le> weekday x"
    using w span unfolding weekday_def by presburger
  then have "count_days h (ordinal a) (ordinal b) 0 = 0" by (rule count_days_weekend)
  moreover from le have "\<not> dt_less b a \<or> ordinal a = ordinal b" by (auto simp: dt_less_def)
  ultimately show "business_days (Some a) (Some b) h = Some 0"
    by (auto simp: business_days_def count_days_empty)
next
  assume "weekday (ordinal a) = 0 \<and> ordinal b = ordinal a + 7 \<and> (h = None \<or> h = Some {})"
  then have m: "weekday (ordinal a) = 0" and b: "ordinal b = ordinal a + 7"
    and h: "h = None \<or> h = Some {}" by simp_all
  from b have "\<not> dt_less b a" by (simp add: dt_less_def)
  with b count_days_week [OF m h] show "business_days (Some a) (Some b) h = Some 5"
    by (simp add: business_days_def)
qed

text \<open>
  Monday 2024-11-04 (day 739194) to Monday 2024-11-11, in both orders, and Saturday
  2024-11-09 to Sunday 2024-11-10 with a holiday set that is not empty.
\<close>

theorem business_days_properties_witness:
  "weekday 739194 = 0 \<and> weekday 739199 = 5
   \<and> business_days (Some \<lparr>ordinal = 739194, micros = 5\<rparr>)
        (Some \<lparr>ordinal = 739201, micros = 0\<rparr>) None = Some 5
   \<and> business_days (Some \<lparr>ordinal = 739201, micros = 0\<rparr>)
        (Some \<lparr>ordinal = 739194, micros = 5\<rparr>) None = Some 5
   \<and> business_days (Some \<lparr>ordinal = 739199, micros = 7\<rparr>)
        (Some \<lparr>ordinal = 739200, micros = 0\<rparr>) (Some {''2024-11-05''}) = Some 0"
  using business_days_properties [of "Some \<lparr>ordinal = 739201, micros = 0\<rparr>"
      "Some \<lparr>ordinal = 739194, micros = 5\<rparr>" None
      undefined "\<lparr>ordinal = 739194, micros = 5\<rparr>" "\<lparr>ordinal = 739201, micros = 0\<rparr>"]
    business_days_properties [of None None "Some {''2024-11-05''}"
      undefined "\<lparr>ordinal = 739199, micros = 7\<rparr>" "\<lparr>ordinal = 739200, micros = 0\<rparr>"]
  by (simp add: weekday_def)

subsection \<open>Flag storage\<close>

lemma filter_key_le1:
  "distinct (filter Q (map k xs)) \<Longrightarrow> Q a \<Longrightarrow> length (filter (\<lambda>x. k x = a) xs) \<le> 1"
proof (induction xs)
  case Nil
  then show ?case by simp
next
  case (Cons x xs)
  show ?case
  proof (cases "k x = a")
    case True
    with Cons.prems have "a \<notin> set (map k xs)" by auto
    then have "filter (\<lambda>x. k x = a) xs = []" by (auto simp: filter_empty_conv)
    with True show ?thesis by simp
  next
    case False
    with Cons show ?thesis by (auto split: if_splits)
  qed
qed

lemma filter_cases_le1:
  "length xs \<le> 1 \<Longrightarrow> xs = [] \<or> (\<exists>x. xs = [x])"
  by (cases xs) auto

lemma ensure_flag_by_codigo_ok:
  assumes "unique_rows s"
    and "length code \<le> 10 \<or> (\<exists>f \<in> set (flags_tbl s). f_codigo f = Some code)"
  shows "\<exists>flag s1. ensure_flag_by_codigo s code None = Inr (flag, s1)
      \<and> filter (\<lambda>f. f_codigo f = Some code) (flags_tbl s1) = [flag]
      \<and> unique_rows s1
      \<and> flags_licitaciones_tbl s1 = flags_licitaciones_tbl s
      \<and> flags_log_tbl s1 = flags_log_tbl s
      \<and> now s1 = now s
      \<and> (filter (\<lambda>f. f_codigo f = Some code) (flags_tbl s) \<noteq> [] \<longrightarrow> s1 = s)"
proof -
  let ?hits = "filter (\<lambda>f. f_codigo f = Some code) (flags_tbl s)"
  from assms(1) have "length ?hits \<le> 1"
    unfolding unique_rows_def by (intro filter_key_le1 [where Q = "\<lambda>c. c \<noteq> None"]) auto
  then consider "?hits = []" | f where "?hits = [f]"
    using filter_cases_le1 by blast
  then show ?thesis
  proof cases
    case 1
    then have fresh: "Some code \<notin> set (map f_codigo (flags_tbl s))"
      by (auto simp: filter_empty_conv)
    then have "\<not> (\<exists>f \<in> set (flags_tbl s). f_codigo f = Some code)" by force
    with assms(2) have "length code \<le> 10" by blast
    with 1 fresh assms(1) show ?thesis
      by (auto simp: ensure_flag_by_codigo_def unique_rows_def Let_def str_or_def)
  next
    case 2
    with assms(1) show ?thesis
      by (simp add: ensure_flag_by_codigo_def)
  qed
qed

lemma update_first_map_key:
  "(\<And>x. k (f x) = k x) \<Longrightarrow> map k (update_first P f xs) = map k xs"
  by (induction xs) auto

lemma update_first_length [simp]: "length (update_first P f xs) = length xs"
  by (induction xs) auto

lemma update_first_filter:
  "filter P xs = [x] \<Longrightarrow> P (f x) \<Longrightarrow> filter P (update_first P f xs) = [f x]"
proof (induction xs)
  case Nil
  then show ?case by simp
next
  case (Cons y ys)
  show ?case
  proof (cases "P y")
    case True
    with Cons.prems show ?thesis by simp
  next
    case False
    with Cons show ?thesis by simp
  qed
qed

text \<open>
  What one call of \<^verbatim>\<open>set_flag_for_licitacion\<close> does on a store that satisfies the
  schema's unique constraints, for an entity that exists and a code that fits its column (or
  for a pair that has an assignment row already): it returns, the constraints still hold,
  the pair has exactly the returned row, and the log has one more entry.
\<close>

lemma set_flag_result:
  assumes u: "unique_rows s"
    and ok: "(lid \<in> set (map lic_id (licitaciones s)) \<and> length code \<le> 10)
             \<or> assignments s lid code \<noteq> []"
  shows "\<exists>r s'. set_flag_for_licitacion s lid code v c src usr fecha = Inr (r, s')
      \<and> unique_rows s'
      \<and> assignments s' lid code = [r]
      \<and> fl_valor r = v \<and> fl_comentario r = c \<and> fl_fuente r = src
      \<and> flags_log_tbl s' = flags_log_tbl s @
           [\<lparr>lg_flags_licitaciones_id = fl_id r,
             lg_cambio = (v, (case c of None \<Rightarrow> Texto [] | Some t \<Rightarrow> t), str_or src []),
             lg_fecha = (case fecha of None \<Rightarrow> now s | Some f \<Rightarrow> f),
             lg_usuario = str_or usr ''sistema''\<rparr>]
      \<and> licitaciones s' = licitaciones s \<and> chunks s' = chunks s
      \<and> keymap s' = keymap s \<and> calendario s' = calendario s \<and> now s' = now s
      \<and> (assignments s lid code \<noteq> [] \<longrightarrow>
            flags_tbl s' = flags_tbl s
            \<and> length (flags_licitaciones_tbl s') = length (flags_licitaciones_tbl s))"
proof -
  have fits: "length code \<le> 10 \<or> (\<exists>f \<in> set (flags_tbl s). f_codigo f = Some code)"
    using ok by (auto simp: assignments_def filter_empty_conv)
  from ensure_flag_by_codigo_ok [OF u fits] obtain flag s1 where
    e: "ensure_flag_by_codigo s code None = Inr (flag, s1)"
    and fl: "filter (\<lambda>f. f_codigo f = Some code) (flags_tbl s1) = [flag]"
    and u1: "unique_rows s1"
    and same: "flags_licitaciones_tbl s1 = flags_licitaciones_tbl s"
      "flags_log_tbl s1 = flags_log_tbl s" "now s1 = now s"
    and keep: "filter (\<lambda>f. f_codigo f = Some code) (flags_tbl s) \<noteq> [] \<longrightarrow> s1 = s"
    by blast
  have frame: "licitaciones s1 = licitaciones s" "chunks s1 = chunks s"
    "keymap s1 = keymap s" "calendario s1 = calendario s"
    using e by (auto simp: ensure_flag_by_codigo_def Let_def split: list.splits if_splits)
  have "flag \<in> set (filter (\<lambda>f. f_codigo f = Some code) (flags_tbl s1))" using fl by simp
  then have known: "f_id flag \<in> set (map f_id (flags_tbl s1))" by auto
  let ?hit = "\<lambda>r. fl_licitacion_id r = lid \<and> fl_flag_id r = f_id flag"
  let ?key = "\<lambda>r. (fl_licitacion_id r, fl_flag_id r)"
  let ?rows = "flags_licitaciones_tbl s1"
  have code_iff: "\<And>x. (\<exists>f \<in> set (flags_tbl s1). f_codigo f = Some code \<and> f_id f = x) \<longleftrightarrow> x = f_id flag"
  proof -
    fix x
    have "set (filter (\<lambda>f. f_codigo f = Some code) (flags_tbl s1)) = {flag}" using fl by simp
    then have "\<forall>f. (f \<in> set (flags_tbl s1) \<and> f_codigo f = Some code) = (f = flag)" by auto
    then show "(\<exists>f \<in> set (flags_tbl s1). f_codigo f = Some code \<and> f_id f = x) \<longleftrightarrow> x = f_id flag"
      by (metis (no_types, lifting))
  qed
  have hit_eq: "?hit = (\<lambda>r. ?key r = (lid, f_id flag))" by auto
  from u1 have "length (filter (\<lambda>r. ?key r = (lid, f_id flag)) ?rows) \<le> 1"
    unfolding unique_rows_def by (intro filter_key_le1 [where Q = "\<lambda>_. True"]) auto
  then have "length (filter ?hit ?rows) \<le> 1" by (simp only: hit_eq)
  then consider "filter ?hit ?rows = []" | old where "filter ?hit ?rows = [old]"
    using filter_cases_le1 by blast
  then show ?thesis
  proof cases
    case 1
    then have fresh: "(lid, f_id flag) \<notin> set (map ?key ?rows)"
      by (auto simp: filter_empty_conv)
    have noass: "assignments s lid code = []"
    proof (cases "filter (\<lambda>f. f_codigo f = Some code) (flags_tbl s) = []")
      case True
      then show ?thesis by (auto simp: assignments_def filter_empty_conv)
    next
      case False
      with keep have "s1 = s" by simp
      with 1 code_iff show ?thesis by (auto simp: assignments_def filter_empty_conv)
    qed
    with ok frame have there: "lid \<in> set (map lic_id (licitaciones s1))" by simp
    from 1 e fresh u1 code_iff same noass frame known there show ?thesis
      by (simp add: set_flag_for_licitacion_def Let_def unique_rows_def assignments_def)
  next
    case 2
    then have "old \<in> set (filter ?hit ?rows)" by simp
    then have old: "?hit old" by simp
    have upd: "filter ?hit (update_first ?hit
        (\<lambda>r. r\<lparr>fl_valor := v, fl_fecha_detectado := (case fecha of None \<Rightarrow> now s | Some f \<Rightarrow> f),
                fl_comentario := c, fl_fuente := src\<rparr>) ?rows)
        = [old\<lparr>fl_valor := v, fl_fecha_detectado := (case fecha of None \<Rightarrow> now s | Some f \<Rightarrow> f),
                fl_comentario := c, fl_fuente := src\<rparr>]"
      using 2 old by (intro update_first_filter) simp_all
    have keys: "map ?key (update_first ?hit
        (\<lambda>r. r\<lparr>fl_valor := v, fl_fecha_detectado := (case fecha of None \<Rightarrow> now s | Some f \<Rightarrow> f),
                fl_comentario := c, fl_fuente := src\<rparr>) ?rows) = map ?key ?rows"
      by (intro update_first_map_key) simp
    have keep': "assignments s lid code \<noteq> [] \<longrightarrow> s1 = s"
      using keep by (auto simp: assignments_def filter_empty_conv)
    from 2 e u1 code_iff same upd keys keep' frame show ?thesis
      by (simp add: set_flag_for_licitacion_def Let_def unique_rows_def assignments_def)
  qed
qed

text \<open>
  Where the schema turns the write down: an entity id that names no entity, with no
  assignment row for the pair yet, and a code of more than 10 characters that is not stored.
\<close>

lemma set_flag_rejected:
  "set_flag_for_licitacion demo_store 999 ''red_precio'' True None None None None
     = Inl IntegrityError
   \<and> set_flag_for_licitacion demo_store 3 ''F-GAP-APERT'' True None None None None
     = Inl DataError"
  by (simp add: set_flag_for_licitacion_def ensure_flag_by_codigo_def demo_store_def
      demo_lic_def next_id_def str_or_def Let_def)

text \<open>
  C3.  On a store that satisfies the schema's unique constraints, for an entity that exists
  and a flag code that fits the column \<^verbatim>\<open>flags.codigo\<close> (at most 10 characters), two
  calls of \<^verbatim>\<open>set_flag_for_licitacion\<close> in a row with the same arguments both return
  (neither raises); after each the pair has exactly one assignment row, holding the given
  value, comment and source; the second call adds no flag definition and no assignment row;
  and the log has one more entry after the first call and two more after the second.  The
  clock may move between the calls (\<open>t\<close>).
\<close>

theorem set_flag_twice:
  assumes "unique_rows s"
    and "lid \<in> set (map lic_id (licitaciones s))"
    and "length code \<le> 10"
  shows "\<exists>r1 s1 r2 s2.
      set_flag_for_licitacion s lid code v c src usr fecha = Inr (r1, s1)
    \<and> set_flag_for_licitacion (s1\<lparr>now := t\<rparr>) lid code v c src usr fecha = Inr (r2, s2)
    \<and> assignments s1 lid code = [r1] \<and> assignments s2 lid code = [r2]
    \<and> (fl_valor r1, fl_comentario r1, fl_fuente r1) = (v, c, src)
    \<and> (fl_valor r2, fl_comentario r2, fl_fuente r2) = (v, c, src)
    \<and> flags_tbl s2 = flags_tbl s1
    \<and> length (flags_licitaciones_tbl s2) = length (flags_licitaciones_tbl s1)
    \<and> length (flags_log_tbl s1) = length (flags_log_tbl s) + 1
    \<and> length (flags_log_tbl s2) = length (flags_log_tbl s) + 2"
proof -
  from assms have ok: "(lid \<in> set (map lic_id (licitaciones s)) \<and> length code \<le> 10)
             \<or> assignments s lid code \<noteq> []" by simp
  from set_flag_result [OF assms(1) ok, of v c src usr fecha] obtain r1 s1 where
    first: "set_flag_for_licitacion s lid code v c src usr fecha = Inr (r1, s1)"
    and u1: "unique_rows s1" and a1: "assignments s1 lid code = [r1]"
    and v1: "fl_valor r1 = v" "fl_comentario r1 = c" "fl_fuente r1 = src"
    and l1: "length (flags_log_tbl s1) = length (flags_log_tbl s) + 1"
    by auto
  let ?s1 = "s1\<lparr>now := t\<rparr>"
  have u1': "unique_rows ?s1" using u1 by (simp add: unique_rows_def)
  have a1': "assignments ?s1 lid code \<noteq> []" using a1 by (simp add: assignments_def)
  then have ok': "(lid \<in> set (map lic_id (licitaciones ?s1)) \<and> length code \<le> 10)
             \<or> assignments ?s1 lid code \<noteq> []" by simp
  from set_flag_result [OF u1' ok', of v c src usr fecha] a1' obtain r2 s2 where
    second: "set_flag_for_licitacion ?s1 lid code v c src usr fecha = Inr (r2, s2)"
    and a2: "assignments s2 lid code = [r2]"
    and v2: "fl_valor r2 = v" "fl_comentario r2 = c" "fl_fuente r2 = src"
    and l2: "length (flags_log_tbl s2) = length (flags_log_tbl ?s1) + 1"
    and same: "flags_tbl s2 = flags_tbl ?s1"
      "length (flags_licitaciones_tbl s2) = length (flags_licitaciones_tbl ?s1)"
    by auto
  from first second a1 a2 v1 v2 l1 l2 same show ?thesis by simp
qed

theorem set_flag_twice_witness:
  "unique_rows demo_store \<and> 3 \<in> set (map lic_id (licitaciones demo_store))
   \<and> length ''red_precio'' \<le> 10
   \<and> (\<exists>r1 s1 r2 s2.
      set_flag_for_licitacion demo_store 3 ''red_precio'' True (Some (Texto ''x'')) None None None
        = Inr (r1, s1)
    \<and> set_flag_for_licitacion (s1\<lparr>now := \<lparr>ordinal = 739196, micros = 0\<rparr>\<rparr>) 3 ''red_precio'' True
        (Some (Texto ''x'')) None None None = Inr (r2, s2)
    \<and> assignments s2 3 ''red_precio'' = [r2]
    \<and> fl_valor r2 = True
    \<and> length (flags_log_tbl s2) = 2)"
proof -
  have u: "unique_rows demo_store" by (simp add: unique_rows_def demo_store_def)
  have e: "3 \<in> set (map lic_id (licitaciones demo_store))"
    by (simp add: demo_store_def demo_lic_def)
  have l: "length ''red_precio'' \<le> 10" by simp
  from set_flag_twice [OF u e l, of True "Some (Texto ''x'')" None None None
      "\<lparr>ordinal = 739196, micros = 0\<rparr>"]
  have "\<exists>r1 s1 r2 s2.
      set_flag_for_licitacion demo_store 3 ''red_precio'' True (Some (Texto ''x'')) None None None
        = Inr (r1, s1)
    \<and> set_flag_for_licitacion (s1\<lparr>now := \<lparr>ordinal = 739196, micros = 0\<rparr>\<rparr>) 3 ''red_precio'' True
        (Some (Texto ''x'')) None None None = Inr (r2, s2)
    \<and> assignments s2 3 ''red_precio'' = [r2]
    \<and> fl_valor r2 = True
    \<and> length (flags_log_tbl s2) = 2"
    by (auto simp: demo_store_def)
  with u e l show ?thesis by simp
qed

subsection \<open>No match of a person with themself\<close>

lemma try_pair_no_self:
  "(\<forall>m \<in> set (fst st). oficial_id m \<noteq> contratista_id m) \<Longrightarrow> (\<forall>m \<in> set (fst (try_pair by_id adj oid st cid)). oficial_id m \<noteq> contratista_id m)"
proof (cases st)
  case (fields matches best best_score)
  assume ok: "(\<forall>m \<in> set (fst st). oficial_id m \<noteq> contratista_id m)"
  show ?thesis
  proof (cases "shortest_path adj oid cid 2")
    case None
    with fields ok show ?thesis by (simp add: try_pair_def)
  next
    case (Some path)
    then have "oid \<noteq> cid" by (auto simp: shortest_path_def split: if_splits)
    with fields ok Some show ?thesis
      by (simp add: try_pair_def Let_def split: prod.splits)
  qed
qed

lemma inner_no_self:
  "(\<forall>m \<in> set (fst st). oficial_id m \<noteq> contratista_id m) \<Longrightarrow>
   (\<forall>m \<in> set (fst (fold (\<lambda>cid st'. try_pair by_id adj oid st' cid) cids st)). oficial_id m \<noteq> contratista_id m)"
proof (induction cids arbitrary: st)
  case Nil
  then show ?case by simp
next
  case (Cons c cs)
  from try_pair_no_self [OF Cons.prems]
  have "(\<forall>m \<in> set (fst (try_pair by_id adj oid st c)). oficial_id m \<noteq> contratista_id m)" .
  from Cons.IH [OF this] show ?case by simp
qed

lemma outer_no_self:
  "(\<forall>m \<in> set (fst st). oficial_id m \<noteq> contratista_id m) \<Longrightarrow>
   (\<forall>m \<in> set (fst (fold (\<lambda>oid st. fold (\<lambda>cid st'. try_pair by_id adj oid st' cid) cids st)
      oids st)). oficial_id m \<noteq> contratista_id m)"
proof (induction oids arbitrary: st)
  case Nil
  then show ?case by simp
next
  case (Cons x xs)
  from inner_no_self [OF Cons.prems]
  have "(\<forall>m \<in> set (fst (fold (\<lambda>cid st'. try_pair by_id adj x st' cid) cids st)). oficial_id m \<noteq> contratista_id m)" .
  from Cons.IH [OF this] show ?case by simp
qed

lemma find_matches_no_self:
  "(\<forall>m \<in> set (fst (find_matches by_id adj official_ids contractor_ids)). oficial_id m \<noteq> contratista_id m)"
  unfolding find_matches_def by (rule outer_no_self) simp

text \<open>
  C10.  \<^verbatim>\<open>shortest_path\<close> returns \<^verbatim>\<open>None\<close> from a node to itself, for every adjacency
  and depth, and whenever one of the two endpoints is not a key of the adjacency.  So no
  match of the search over officials and contractors pairs a person with themself: neither
  in the loop's list of matches for any lists of ids, nor in the matches that
  \<^verbatim>\<open>run_red_contactos\<close> returns.
\<close>

theorem no_path_to_self:
  "shortest_path adj s s max_depth = None
   \<and> (adj src = None \<or> adj dst = None \<longrightarrow> shortest_path adj src dst max_depth = None)
   \<and> (\<forall>m \<in> set (fst (find_matches by_id adj' official_ids contractor_ids)).
         oficial_id m \<noteq> contratista_id m)
   \<and> (\<forall>r s' e offs cons ms. run_red_contactos session lic json_override = Inr (r, s')
         \<and> r_detail r = Some (DetailRed e offs cons ms)
         \<longrightarrow> (\<forall>m \<in> set ms. oficial_id m \<noteq> contratista_id m))"
proof (intro conjI allI impI)
  show "shortest_path adj s s max_depth = None" by (simp add: shortest_path_def)
next
  assume "adj src = None \<or> adj dst = None"
  then show "shortest_path adj src dst max_depth = None" by (auto simp: shortest_path_def)
next
  show "\<forall>m \<in> set (fst (find_matches by_id adj' official_ids contractor_ids)).
         oficial_id m \<noteq> contratista_id m"
    using find_matches_no_self [of by_id adj' official_ids contractor_ids]
    by simp
next
  fix r s' e offs cons ms
  assume "run_red_contactos session lic json_override = Inr (r, s')
         \<and> r_detail r = Some (DetailRed e offs cons ms)"
  then have run: "run_red_contactos session lic json_override = Inr (r, s')"
    and det: "r_detail r = Some (DetailRed e offs cons ms)" by simp_all
  from run det have "\<exists>by_id adj oids cids. ms = fst (find_matches by_id adj oids cids)"
    by (auto simp: run_red_contactos_def Let_def
        split: option.splits if_splits prod.splits sum.splits) (metis fst_conv)+
  then obtain by_id adj oids cids where "ms = fst (find_matches by_id adj oids cids)"
    by blast
  then show "\<forall>m \<in> set ms. oficial_id m \<noteq> contratista_id m"
    using find_matches_no_self [of by_id adj oids cids]
    by simp
qed

lemma red_contactos_demo:
  "map_sum id fst (run_red_contactos demo_store 1 demo_payload) =
     Inr \<lparr>r_ok = True, r_flow = None, r_reason = None, r_flag_applied = Some True,
          r_comment = Some (MejorCoincidencia (Some ''ana'') (Some ''beto'') 1 1),
          r_detail = Some (DetailRed ''Alcaldia'' [Some ''ana''] [Some ''ana'', Some ''beto'']
            [\<lparr>oficial_id = Some ''ana'', oficial_nombre = Some ''ana'',
              contratista_id = Some ''beto'', contratista_nombre = Some ''beto'',
              path_ids = [Some ''ana'', Some ''beto''], path_len = 1, score = 30\<rparr>])\<rparr>"
  by code_simp

text \<open>
  Ana is both the official and a contractor of the demo payload: the only match is the
  one with Beto.
\<close>

theorem no_path_to_self_witness:
  "shortest_path chain_graph ''A'' ''A'' 2 = None
   \<and> chain_graph ''Z'' = None \<and> shortest_path chain_graph ''Z'' ''A'' 2 = None
   \<and> map_sum id fst (run_red_contactos demo_store 1 demo_payload) =
     Inr \<lparr>r_ok = True, r_flow = None, r_reason = None, r_flag_applied = Some True,
          r_comment = Some (MejorCoincidencia (Some ''ana'') (Some ''beto'') 1 1),
          r_detail = Some (DetailRed ''Alcaldia'' [Some ''ana''] [Some ''ana'', Some ''beto'']
            [\<lparr>oficial_id = Some ''ana'', oficial_nombre = Some ''ana'',
              contratista_id = Some ''beto'', contratista_nombre = Some ''beto'',
              path_ids = [Some ''ana'', Some ''beto''], path_len = 1, score = 30\<rparr>])\<rparr>"
proof -
  have z: "chain_graph ''Z'' = None" by (simp add: chain_graph_def)
  from no_path_to_self [of chain_graph "''A''" 2 "''Z''" "''A''"] z
  have "shortest_path chain_graph ''A'' ''A'' 2 = None
    \<and> shortest_path chain_graph ''Z'' ''A'' 2 = None" by simp
  with z red_contactos_demo show ?thesis by simp
qed

subsection \<open>The orchestrator\<close>

lemmas flow_defs = run_flow_batch_def run_flow_for_one_def run_one_flow_def candidate_ids_def
  get_computable_flows_def demo_config_def demo_store_def demo_lic_def processed_ids_def
  run_flag_fecha_for_one_def calendario_row_def or_empty_def empty_payload_def list_or_def
  business_days_def dt_less_def count_days.simps weekday_def
  set_flag_for_licitacion_def ensure_flag_by_codigo_def ensure_flag_fecha_def upsert_flag_def
  FLAG_CODE_FECHA_def next_id_def str_or_def Let_def

lemmas precio_defs = run_flag_precio_for_one_def ensure_flag_precio_def fetch_target_docvec_def
  pooled_def chunk_rows_def fetch_target_meta_def skip_result_def List.map_filter_def
  TOP_K_def MIN_NEIGHBORS_FOR_STATS_def PENALTY_ESTADO_def MAX_TARGET_CHUNKS_def empty_stats_def

text \<open>
  C7.  The claim names the error \<^verbatim>\<open>"payload_required"\<close>; the code's entry says
  \<^verbatim>\<open>"json_required"\<close>.  With that string the claim holds: for every entity id, store
  and configuration, \<^verbatim>\<open>run_flow_for_one\<close> with the flow \<^verbatim>\<open>red_contactos\<close> and a
  payload that is \<^verbatim>\<open>None\<close> or empty returns the single entry with \<^verbatim>\<open>ok = False\<close>
  and \<^verbatim>\<open>error = "json_required"\<close>, and the store it returns is the store it was
  given: no flag definition, no assignment and no log entry is written.
\<close>

theorem interactive_without_payload:
  "falsy_payload json_override \<Longrightarrow>
   run_flow_for_one cfg session lic ''red_contactos'' json_override =
     Inr (\<lparr>rr_licitacion_id = lic,
           rr_applied = [\<lparr>e_flow = ''red_contactos'', e_ok = Some False,
                          e_error = Some ''json_required'', e_result = None\<rparr>]\<rparr>,
          session)"
  by (simp add: run_flow_for_one_def run_one_flow_def)

theorem interactive_without_payload_witness:
  "falsy_payload (Some empty_payload)
   \<and> run_flow_for_one demo_config demo_store 5 ''red_contactos'' (Some empty_payload) =
     Inr (\<lparr>rr_licitacion_id = 5,
           rr_applied = [\<lparr>e_flow = ''red_contactos'', e_ok = Some False,
                          e_error = Some ''json_required'', e_result = None\<rparr>]\<rparr>,
          demo_store)"
proof -
  have f: "falsy_payload (Some empty_payload)" by (simp add: falsy_payload_def)
  from interactive_without_payload [OF f, of demo_config demo_store 5] f show ?thesis by simp
qed

text \<open>The entry of a run without payload: its error is not \<^verbatim>\<open>"payload_required"\<close>.\<close>

theorem interactive_error_is_json_required:
  "run_flow_for_one demo_config demo_store 1 ''red_contactos'' None =
     Inr (\<lparr>rr_licitacion_id = 1,
           rr_applied = [\<lparr>e_flow = ''red_contactos'', e_ok = Some False,
                          e_error = Some ''json_required'', e_result = None\<rparr>]\<rparr>,
          demo_store)
   \<and> run_flow_for_one demo_config demo_store 1 ''red_contactos'' None \<noteq>
     Inr (\<lparr>rr_licitacion_id = 1,
           rr_applied = [\<lparr>e_flow = ''red_contactos'', e_ok = Some False,
                          e_error = Some ''payload_required'', e_result = None\<rparr>]\<rparr>,
          demo_store)"
  by (simp add: run_flow_for_one_def run_one_flow_def falsy_payload_def)

lemma run_one_flow_name:
  "run_one_flow cfg s lic f j = Inr (en, s') \<Longrightarrow> e_flow en = f"
  by (auto simp: run_one_flow_def split: if_splits sum.splits)

lemma run_flows_names:
  "run_flows cfg s lic j flows = Inr (ens, s') \<Longrightarrow> map e_flow ens = flows"
proof (induction flows arbitrary: s ens)
  case Nil
  then show ?case by simp
next
  case (Cons f flows)
  from Cons.prems obtain en s1 ens' where
    one: "run_one_flow cfg s lic f j = Inr (en, s1)"
    and rest: "run_flows cfg s1 lic j flows = Inr (ens', s')"
    and ens: "ens = en # ens'"
    by (auto split: sum.splits)
  from run_one_flow_name [OF one] Cons.IH [OF rest] ens show ?case by simp
qed

lemma run_flows_abort:
  "run_flows cfg s lic j pre = Inr (ens, s1) \<Longrightarrow> run_one_flow cfg s1 lic f j = Inl e \<Longrightarrow>
   run_flows cfg s lic j (pre @ f # post) = Inl e"
proof (induction pre arbitrary: s ens)
  case Nil
  then show ?case by simp
next
  case (Cons p pre)
  from Cons.prems(1) obtain en s0 ens' where
    one: "run_one_flow cfg s lic p j = Inr (en, s0)"
    and rest: "run_flows cfg s0 lic j pre = Inr (ens', s1)"
    by (auto split: sum.splits)
  from Cons.IH [OF rest Cons.prems(2)] one show ?case by simp
qed

lemma batch_loop_ids:
  "batch_loop cfg s ksflow j ids = Inr (out, s') \<Longrightarrow> map rr_licitacion_id out = ids"
proof (induction ids arbitrary: s out)
  case Nil
  then show ?case by simp
next
  case (Cons lid ids)
  from Cons.prems obtain r s1 out' where
    one: "run_flow_for_one cfg s lid ksflow j = Inr (r, s1)"
    and rest: "batch_loop cfg s1 ksflow j ids = Inr (out', s')"
    and out: "out = r # out'"
    by (auto split: sum.splits)
  from one have "rr_licitacion_id r = lid"
    by (auto simp: run_flow_for_one_def Let_def split: sum.splits)
  with Cons.IH [OF rest] out show ?case by simp
qed

lemma batch_loop_abort:
  "batch_loop cfg s ksflow j pre = Inr (out, s1) \<Longrightarrow>
   run_flow_for_one cfg s1 lid ksflow j = Inl e \<Longrightarrow>
   batch_loop cfg s ksflow j (pre @ lid # post) = Inl e"
proof (induction pre arbitrary: s out)
  case Nil
  then show ?case by simp
next
  case (Cons p pre)
  from Cons.prems(1) obtain r s0 out' where
    one: "run_flow_for_one cfg s p ksflow j = Inr (r, s0)"
    and rest: "batch_loop cfg s0 ksflow j pre = Inr (out', s1)"
    by (auto split: sum.splits)
  from Cons.IH [OF rest Cons.prems(2)] one show ?case by simp
qed

lemma run_flow_batch_given:
  "ksflow = ''all'' \<or> ksflow \<in> set (get_computable_flows cfg) \<Longrightarrow>
   run_flow_batch cfg s ksflow (Some ids) w l j = batch_loop cfg s ksflow j ids"
  by (auto simp: run_flow_batch_def)

lemma run_flow_batch_discover:
  "ksflow = ''all'' \<or> ksflow \<in> set (get_computable_flows cfg) \<Longrightarrow>
   run_flow_batch cfg s ksflow None w l j =
     (case candidate_ids s w l of Inl e \<Rightarrow> Inl e | Inr ids \<Rightarrow> batch_loop cfg s ksflow j ids)"
  by (auto simp: run_flow_batch_def)

text \<open>
  C1.  The orchestrator has no handler: an exception raised inside a flow leaves
  \<^verbatim>\<open>run_flow_for_one\<close>, and \<^verbatim>\<open>run_flow_batch\<close> with it, and no list is returned.
  What holds: when \<^verbatim>\<open>run_flow_for_one\<close> with the flow \<^verbatim>\<open>all\<close> returns, it has one
  entry per computable flow, in the declared order; when \<^verbatim>\<open>run_flow_batch\<close> returns, it
  has one result per given entity id, in order; when a flow raises after the flows before
  it have run, \<^verbatim>\<open>run_flow_for_one\<close> raises the same error; and when the run of one
  entity raises after the entities before it have run, the batch raises the same error.
\<close>

theorem runs_complete_unless_raised:
  "(\<forall>r s'. run_flow_for_one cfg s lic ''all'' j = Inr (r, s')
       \<longrightarrow> map e_flow (rr_applied r) = get_computable_flows cfg
           \<and> length (rr_applied r) = length (get_computable_flows cfg))
   \<and> (\<forall>out s'. run_flow_batch cfg s ksflow (Some ids) w l j = Inr (out, s')
       \<longrightarrow> map rr_licitacion_id out = ids \<and> length out = length ids)
   \<and> (\<forall>ens s1. get_computable_flows cfg = pre @ f # post
         \<and> run_flows cfg s lic j pre = Inr (ens, s1)
         \<and> run_one_flow cfg s1 lic f j = Inl e
       \<longrightarrow> run_flow_for_one cfg s lic ''all'' j = Inl e)
   \<and> (\<forall>out s1. (ksflow = ''all'' \<or> ksflow \<in> set (get_computable_flows cfg))
         \<and> batch_loop cfg s ksflow j before = Inr (out, s1)
         \<and> run_flow_for_one cfg s1 lid ksflow j = Inl e
       \<longrightarrow> run_flow_batch cfg s ksflow (Some (before @ lid # after)) w l j = Inl e)"
proof (intro conjI allI impI)
  fix r s'
  assume "run_flow_for_one cfg s lic ''all'' j = Inr (r, s')"
  then obtain ens where "run_flows cfg s lic j (get_computable_flows cfg) = Inr (ens, s')"
    and "rr_applied r = ens"
    by (auto simp: run_flow_for_one_def Let_def split: sum.splits)
  with run_flows_names [of cfg s lic j "get_computable_flows cfg" ens s']
  have m: "map e_flow (rr_applied r) = get_computable_flows cfg" by simp
  show "map e_flow (rr_applied r) = get_computable_flows cfg" by (rule m)
  from m have "length (map e_flow (rr_applied r)) = length (get_computable_flows cfg)" by simp
  then show "length (rr_applied r) = length (get_computable_flows cfg)" by simp
next
  fix out s'
  assume b: "run_flow_batch cfg s ksflow (Some ids) w l j = Inr (out, s')"
  then have "batch_loop cfg s ksflow j ids = Inr (out, s')"
    by (auto simp: run_flow_batch_def split: if_splits)
  from batch_loop_ids [OF this] have m: "map rr_licitacion_id out = ids" .
  show "map rr_licitacion_id out = ids" by (rule m)
  from m have "length (map rr_licitacion_id out) = length ids" by simp
  then show "length out = length ids" by simp
next
  fix ens s1
  assume "get_computable_flows cfg = pre @ f # post
         \<and> run_flows cfg s lic j pre = Inr (ens, s1)
         \<and> run_one_flow cfg s1 lic f j = Inl e"
  then have g: "get_computable_flows cfg = pre @ f # post"
    and p: "run_flows cfg s lic j pre = Inr (ens, s1)"
    and x: "run_one_flow cfg s1 lic f j = Inl e" by simp_all
  from run_flows_abort [OF p x, of post] g
  show "run_flow_for_one cfg s lic ''all'' j = Inl e"
    by (simp add: run_flow_for_one_def)
next
  fix out s1
  assume "(ksflow = ''all'' \<or> ksflow \<in> set (get_computable_flows cfg))
         \<and> batch_loop cfg s ksflow j before = Inr (out, s1)
         \<and> run_flow_for_one cfg s1 lid ksflow j = Inl e"
  then have k: "ksflow = ''all'' \<or> ksflow \<in> set (get_computable_flows cfg)"
    and p: "batch_loop cfg s ksflow j before = Inr (out, s1)"
    and x: "run_flow_for_one cfg s1 lid ksflow j = Inl e" by simp_all
  from batch_loop_abort [OF p x, of after] run_flow_batch_given [OF k]
  show "run_flow_batch cfg s ksflow (Some (before @ lid # after)) w l j = Inl e" by simp
qed

text \<open>
  Entity 1 of the demo store runs both flows; entity 999 does not exist, and the price
  detector's error ends the run and the batch.  Entity 2 has a calendar record: after the
  price flow has run, the date flow's flag definition, whose code has 11 characters, is
  turned down by the column \<^verbatim>\<open>String(10)\<close>, and that error ends the run.
\<close>

theorem runs_complete_unless_raised_witness:
  "map_sum id (\<lambda>(r, s). map e_flow (rr_applied r))
       (run_flow_for_one demo_config demo_store 1 ''all'' None)
     = Inr [''red_precio'', ''gap_fechas'']
   \<and> processed_ids (run_flow_batch demo_config demo_store ''gap_fechas'' (Some [1, 3])
        None None None) = Inr [1, 3]
   \<and> run_flow_for_one demo_config demo_store 999 ''all'' None = Inl (NoExiste 999)
   \<and> run_flow_batch demo_config demo_store ''red_precio'' (Some [999, 2]) None None None
       = Inl (NoExiste 999)
   \<and> run_flow_for_one demo_config demo_store 2 ''all'' None = Inl DataError"
proof -
  have one: "run_one_flow demo_config demo_store 999 ''red_precio'' None = Inl (NoExiste 999)"
    by (simp add: run_one_flow_def demo_config_def run_flag_precio_for_one_def demo_store_def
        demo_lic_def)
  have g: "get_computable_flows demo_config = [] @ ''red_precio'' # [''gap_fechas'']"
    by (simp add: get_computable_flows_def demo_config_def)
  have k: "''red_precio'' \<in> set (get_computable_flows demo_config)"
    by (simp add: get_computable_flows_def demo_config_def)
  note T = runs_complete_unless_raised [of demo_config demo_store 999 None "''red_precio''"
      "[999, 2]" None None "[]" "''red_precio''" "[''gap_fechas'']" "NoExiste 999" "[]" 999 "[2]"]
  from T one g have a: "run_flow_for_one demo_config demo_store 999 ''all'' None = Inl (NoExiste 999)"
    by simp
  have "run_flow_for_one demo_config demo_store 999 ''red_precio'' None = Inl (NoExiste 999)"
    using one by (simp add: run_flow_for_one_def)
  with T k have b: "run_flow_batch demo_config demo_store ''red_precio'' (Some [999, 2]) None None None
       = Inl (NoExiste 999)"
    by simp
  have c: "map_sum id (\<lambda>(r, s). map e_flow (rr_applied r))
       (run_flow_for_one demo_config demo_store 1 ''all'' None)
     = Inr [''red_precio'', ''gap_fechas'']"
    by (simp add: flow_defs precio_defs)
  have d: "processed_ids (run_flow_batch demo_config demo_store ''gap_fechas'' (Some [1, 3])
        None None None) = Inr [1, 3]"
    by (simp add: flow_defs)
  have x: "run_flow_for_one demo_config demo_store 2 ''all'' None = Inl DataError"
    by (simp add: flow_defs precio_defs)
  from a b c d x show ?thesis by simp
qed

text \<open>
  The claim fails at an entity id that does not exist: no entry records the failure, and
  the entity after it in the batch is never run.
\<close>

theorem failure_aborts_run:
  "run_flow_for_one demo_config demo_store 999 ''all'' None = Inl (NoExiste 999)
   \<and> run_flow_batch demo_config demo_store ''all'' (Some [999, 1]) None None None
       = Inl (NoExiste 999)"
  by (simp add: run_flow_batch_def run_flow_for_one_def run_one_flow_def
      get_computable_flows_def demo_config_def run_flag_precio_for_one_def demo_store_def
      demo_lic_def)

text \<open>
  C8.  For a computable flow or \<^verbatim>\<open>all\<close>, with no list of ids given and a limit that is
  \<^verbatim>\<open>None\<close> or not negative: the candidates are the ids of the persisted entities that
  satisfy the filter, in ascending order, cut to the first \<open>n\<close> when the limit is a
  positive \<open>n\<close> and not cut at all when the limit is \<^verbatim>\<open>None\<close> or 0; the batch is the
  sequential run over exactly these ids, and a batch that returns lists its results in that
  order.  With the ids 1, 2, 3, 5, 8 stored in any order, no filter and the limit 3, the
  candidates are 1, 2, 3.
\<close>

theorem batch_candidates:
  assumes k: "ksflow = ''all'' \<or> ksflow \<in> set (get_computable_flows cfg)"
    and l: "limit = None \<or> (\<exists>n. limit = Some n \<and> 0 \<le> n)"
  shows "\<exists>ids. candidate_ids s w limit = Inr ids
      \<and> ids = (case limit of None \<Rightarrow> matching_ids s w
                | Some n \<Rightarrow> if n = 0 then matching_ids s w else take (nat n) (matching_ids s w))
      \<and> sorted ids
      \<and> run_flow_batch cfg s ksflow None w limit j = batch_loop cfg s ksflow j ids
      \<and> (\<forall>out s'. run_flow_batch cfg s ksflow None w limit j = Inr (out, s')
            \<longrightarrow> map rr_licitacion_id out = ids)
      \<and> (mset (map lic_id (licitaciones s)) = mset [1, 2, 3, 5, 8] \<and> w = None \<and> limit = Some 3
            \<longrightarrow> ids = [1, 2, 3])"
proof -
  let ?ids = "case limit of None \<Rightarrow> matching_ids s w
                | Some n \<Rightarrow> if n = 0 then matching_ids s w else take (nat n) (matching_ids s w)"
  from l have c: "candidate_ids s w limit = Inr ?ids"
    by (auto simp: candidate_ids_def matching_ids_def Let_def split: option.splits)
  have srt: "sorted ?ids"
    by (auto simp: matching_ids_def sorted_wrt_take split: option.splits)
  from run_flow_batch_discover [OF k, of s w limit j] c
  have b: "run_flow_batch cfg s ksflow None w limit j = batch_loop cfg s ksflow j ?ids" by simp
  have r: "\<forall>out s'. run_flow_batch cfg s ksflow None w limit j = Inr (out, s')
            \<longrightarrow> map rr_licitacion_id out = ?ids"
    using b batch_loop_ids by metis
  have ex: "mset (map lic_id (licitaciones s)) = mset [1, 2, 3, 5, 8] \<and> w = None \<and> limit = Some 3
            \<longrightarrow> ?ids = [1, 2, 3]"
  proof
    assume a: "mset (map lic_id (licitaciones s)) = mset [1, 2, 3, 5, 8] \<and> w = None \<and> limit = Some 3"
    then have "mset [1, 2, 3, 5, 8] = mset (map lic_id (licitaciones s))" by simp
    then have "sort (map lic_id (licitaciones s)) = [1, 2, 3, 5, 8]"
      by (rule properties_for_sort) simp
    with a show "?ids = [1, 2, 3]" by (simp add: matching_ids_def)
  qed
  from c srt b r ex show ?thesis by blast
qed

theorem batch_candidates_witness:
  "candidate_ids demo_store None (Some 3) = Inr [1, 2, 3]
   \<and> processed_ids (run_flow_batch demo_config demo_store ''red_precio'' None None (Some 3) None)
       = Inr [1, 2, 3]"
proof -
  have k: "''red_precio'' = ''all'' \<or> ''red_precio'' \<in> set (get_computable_flows demo_config)"
    by (simp add: get_computable_flows_def demo_config_def)
  have l: "Some 3 = None \<or> (\<exists>n. Some 3 = Some n \<and> (0::int) \<le> n)" by simp
  have m: "mset (map lic_id (licitaciones demo_store)) = mset [1, 2, 3, 5, 8]"
    by (simp add: demo_store_def demo_lic_def)
  from batch_candidates [OF k l, of demo_store None None] m
  have "candidate_ids demo_store None (Some 3) = Inr [1, 2, 3]" by auto
  moreover have "processed_ids (run_flow_batch demo_config demo_store ''red_precio'' None None
      (Some 3) None) = Inr [1, 2, 3]"
    by (simp add: flow_defs precio_defs)
  ultimately show ?thesis by simp
qed

text \<open>
  The claim's "truncated to the given limit" fails at the limit 0, which \<^verbatim>\<open>if limit:\<close>
  treats as no limit: all five entities are processed.
\<close>

theorem limit_zero_is_no_limit:
  "candidate_ids demo_store None (Some 0) = Inr [1, 2, 3, 5, 8]
   \<and> processed_ids (run_flow_batch demo_config demo_store ''red_precio'' None None (Some 0) None)
       = Inr [1, 2, 3, 5, 8]
   \<and> processed_ids (run_flow_batch demo_config demo_store ''red_precio'' None None (Some 0) None)
       \<noteq> Inr (take 0 [1, 2, 3, 5, 8])"
  by (simp add: flow_defs precio_defs)

subsection \<open>The price detector\<close>

lemma map_key_preserved: "(\<And>x. k (g x) = k x) \<Longrightarrow> map k (map g xs) = map k xs"
  by (induction xs) auto

lemma upsert_flag_ok:
  assumes u: "unique_rows s" and len: "length code \<le> 10"
  shows "\<exists>s1. upsert_flag s code n d = Inr s1 \<and> unique_rows s1
     \<and> licitaciones s1 = licitaciones s \<and> chunks s1 = chunks s
     \<and> flags_log_tbl s1 = flags_log_tbl s
     \<and> flags_licitaciones_tbl s1 = flags_licitaciones_tbl s \<and> now s1 = now s"
proof (cases "\<exists>f \<in> set (flags_tbl s). f_codigo f = Some code")
  case True
  have "map f_codigo (map (\<lambda>f. if f_codigo f = Some code
            then f\<lparr>f_nombre := Some n, f_descripcion := Some d\<rparr> else f) (flags_tbl s))
        = map f_codigo (flags_tbl s)"
    by (rule map_key_preserved) simp
  with True u len show ?thesis by (simp add: upsert_flag_def unique_rows_def del: map_map)
next
  case False
  then have "Some code \<notin> set (map f_codigo (flags_tbl s))" by auto
  with False u len show ?thesis by (auto simp: upsert_flag_def unique_rows_def)
qed

lemma ensure_flag_precio_ok:
  assumes "unique_rows s"
  shows "\<exists>s1. ensure_flag_precio s = Inr s1 \<and> unique_rows s1
     \<and> licitaciones s1 = licitaciones s \<and> chunks s1 = chunks s
     \<and> flags_log_tbl s1 = flags_log_tbl s
     \<and> flags_licitaciones_tbl s1 = flags_licitaciones_tbl s \<and> now s1 = now s"
  unfolding ensure_flag_precio_def by (rule upsert_flag_ok [OF assms]) simp

lemma find_known:
  "find (\<lambda>l. lic_id l = lic) rows = Some target \<Longrightarrow> lic \<in> set (map lic_id rows)"
  by (induction rows) (auto split: if_splits)

lemma pooled_none:
  "\<forall>c \<in> set rows. to_np_vec (ch_embedding_vec c) = None \<Longrightarrow> pooled rows = Inr None"
  by (simp add: pooled_def List.map_filter_def filter_empty_conv)

lemma chunk_rows_subset:
  "c \<in> set (chunk_rows s lic m) \<Longrightarrow> c \<in> set (chunks s) \<and> ch_licitacion_id c = lic"
  unfolding chunk_rows_def by (auto dest: in_set_takeD)

lemma skip_result_ok:
  assumes u: "unique_rows s" and ex: "lic \<in> set (map lic_id (licitaciones s))"
  shows "\<exists>r s'. skip_result s lic c f res = Inr (res, s')
      \<and> unique_rows s'
      \<and> assignments s' lic ''red_precio'' = [r]
      \<and> fl_valor r = False \<and> fl_comentario r = Some c \<and> fl_fuente r = Some f
      \<and> flags_log_tbl s' = flags_log_tbl s @
           [\<lparr>lg_flags_licitaciones_id = fl_id r, lg_cambio = (False, c, f),
             lg_fecha = now s, lg_usuario = ''pipeline''\<rparr>]"
proof -
  from ex have ok: "(lic \<in> set (map lic_id (licitaciones s)) \<and> length ''red_precio'' \<le> 10)
      \<or> assignments s lic ''red_precio'' \<noteq> []" by simp
  from set_flag_result [OF u ok, of False "Some c" "Some f" "Some ''pipeline''" None]
  obtain r s' where
    "set_flag_for_licitacion s lic ''red_precio'' False (Some c) (Some f) (Some ''pipeline'') None
       = Inr (r, s')"
    "unique_rows s'" "assignments s' lic ''red_precio'' = [r]"
    "fl_valor r = False" "fl_comentario r = Some c" "fl_fuente r = Some f"
    "flags_log_tbl s' = flags_log_tbl s @
           [\<lparr>lg_flags_licitaciones_id = fl_id r,
             lg_cambio = (False, c, str_or (Some f) []),
             lg_fecha = now s, lg_usuario = str_or (Some ''pipeline'') ''sistema''\<rparr>]"
    by auto
  moreover have "str_or (Some f) [] = f" by (cases f) (simp_all add: str_or_def)
  ultimately show ?thesis by (auto simp: skip_result_def str_or_def)
qed

lemmas float_eval = rnd_def expo_def pow2_def round_half_even_def bit_length.simps Let_def

lemmas stats_eval = robust_stats_def np_median_def np_percentile_def np_sort_def lerp_def
  fsub_def valor_flag_def comentario_precio_def Z_MAD_THRESHOLD_def

lemma rnd_1000: "rnd 1000 = Fin 1000"
  by (simp add: float_eval cong: let_weak_cong)

lemma no_embedding_run:
  assumes u: "unique_rows s"
    and ex: "find (\<lambda>l. lic_id l = lic) (licitaciones s) = Some target"
    and nv: "\<forall>c \<in> set (chunks s). ch_licitacion_id c = lic
               \<longrightarrow> to_np_vec (ch_embedding_vec c) = None"
  shows "\<exists>r s'. run_flag_precio_for_one s lic top_k min_neighbors penalty_estado =
        Inr (\<lparr>licitacion_id = lic, n_comparables = 0, method_tag = ''skip'',
              stats = empty_stats, target_cuantia = map_option float_of (cuantia target),
              neighbor_ids = []\<rparr>, s')
     \<and> assignments s' lic ''red_precio'' = [r]
     \<and> fl_valor r = False \<and> fl_comentario r = Some SinEmbedding
     \<and> flags_log_tbl s' = flags_log_tbl s @
          [\<lparr>lg_flags_licitaciones_id = fl_id r,
            lg_cambio = (False, SinEmbedding, ''flag_precio(skip)''),
            lg_fecha = now s, lg_usuario = ''pipeline''\<rparr>]"
proof -
  from ensure_flag_precio_ok [OF u] obtain s1 where
    e: "ensure_flag_precio s = Inr s1" and u1: "unique_rows s1"
    and fr: "licitaciones s1 = licitaciones s" "chunks s1 = chunks s"
      "flags_log_tbl s1 = flags_log_tbl s" "now s1 = now s"
    by blast
  from find_known [OF ex] fr(1) have known: "lic \<in> set (map lic_id (licitaciones s1))" by simp
  have "\<forall>c \<in> set (chunk_rows s1 lic MAX_TARGET_CHUNKS). to_np_vec (ch_embedding_vec c) = None"
    using nv fr(2) chunk_rows_subset [of _ s1 lic MAX_TARGET_CHUNKS] by auto
  then have dv: "fetch_target_docvec s1 lic = Inr None"
    by (simp add: fetch_target_docvec_def pooled_none)
  have mt: "m_cuantia (fetch_target_meta s1 lic) = map_option float_of (cuantia target)"
    using ex fr(1) by (simp add: fetch_target_meta_def)
  let ?res = "\<lparr>licitacion_id = lic, n_comparables = 0, method_tag = ''skip'',
              stats = empty_stats, target_cuantia = map_option float_of (cuantia target),
              neighbor_ids = []\<rparr>"
  from skip_result_ok [OF u1 known, of SinEmbedding "''flag_precio(skip)''" ?res]
  obtain r s' where
    sk: "skip_result s1 lic SinEmbedding ''flag_precio(skip)'' ?res = Inr (?res, s')"
    and rest: "assignments s' lic ''red_precio'' = [r]" "fl_valor r = False"
      "fl_comentario r = Some SinEmbedding"
      "flags_log_tbl s' = flags_log_tbl s1 @
           [\<lparr>lg_flags_licitaciones_id = fl_id r,
             lg_cambio = (False, SinEmbedding, ''flag_precio(skip)''),
             lg_fecha = now s1, lg_usuario = ''pipeline''\<rparr>]"
    by blast
  have "run_flag_precio_for_one s lic top_k min_neighbors penalty_estado = Inr (?res, s')"
    using ex e dv mt sk by (simp add: run_flag_precio_for_one_def Let_def)
  with rest fr show ?thesis by simp
qed

text \<open>
  Steps 4 and 5 return for every list of neighbours, on a store that satisfies the unique
  constraints and for an entity that exists.
\<close>

lemma evaluate_top_returns:
  assumes u: "unique_rows s" and ex: "lic \<in> set (map lic_id (licitaciones s))"
  shows "\<exists>res s' r. evaluate_top s lic mn t top_rows = Inr (res, s')
     \<and> target_cuantia res = t
     \<and> n_comparables res = length (filter (\<lambda>x. \<not> isnan (snd (snd x))) top_rows)
     \<and> neighbor_ids res = map fst (filter (\<lambda>x. \<not> isnan (snd (snd x))) top_rows)
     \<and> assignments s' lic ''red_precio'' = [r]
     \<and> ((int (n_comparables res) < mn \<and> stats res = empty_stats \<and> fl_valor r = False)
        \<or> (mn \<le> int (n_comparables res)
            \<and> stats res = robust_stats
                             (map (\<lambda>x. snd (snd x)) (filter (\<lambda>x. \<not> isnan (snd (snd x))) top_rows))
                             (case t of None \<Rightarrow> NaN | Some x \<Rightarrow> x)
            \<and> fl_valor r = valor_flag t (stats res)))"
proof -
  let ?kept = "filter (\<lambda>x. \<not> isnan (snd (snd x))) top_rows"
  let ?vals = "map (\<lambda>x. snd (snd x)) ?kept"
  from ex have ok: "(lic \<in> set (map lic_id (licitaciones s)) \<and> length ''red_precio'' \<le> 10)
      \<or> assignments s lic ''red_precio'' \<noteq> []" by simp
  show ?thesis
  proof (cases "int (length ?vals) < mn")
    case True
    let ?res = "\<lparr>licitacion_id = lic, n_comparables = length ?vals,
                 method_tag = ''chunks_mean_cos'', stats = empty_stats,
                 target_cuantia = t, neighbor_ids = map fst ?kept\<rparr>"
    from skip_result_ok [OF u ex, of "PocosComparables (length ?vals) mn"
        "''flag_precio_chunks_mean_cos(skip)''" ?res]
    obtain r s'' where
      sk: "skip_result s lic (PocosComparables (length ?vals) mn)
             ''flag_precio_chunks_mean_cos(skip)'' ?res = Inr (?res, s'')"
      and a: "assignments s'' lic ''red_precio'' = [r]" "fl_valor r = False"
      by blast
    from True sk have "evaluate_top s lic mn t top_rows = Inr (?res, s'')"
      by (simp add: evaluate_top_def Let_def)
    with a True show ?thesis by simp
  next
    case False
    let ?st = "robust_stats ?vals (case t of None \<Rightarrow> NaN | Some x \<Rightarrow> x)"
    let ?res = "\<lparr>licitacion_id = lic, n_comparables = length ?vals,
                 method_tag = ''chunks_mean_cos'', stats = ?st,
                 target_cuantia = t, neighbor_ids = map fst ?kept\<rparr>"
    from set_flag_result [OF u ok, of "valor_flag t ?st"
        "Some (comentario_precio t ?st (length ?vals))" "Some ''flag_precio_chunks_mean_cos''"
        "Some ''pipeline''" None]
    obtain r s'' where
      sf: "set_flag_for_licitacion s lic ''red_precio'' (valor_flag t ?st)
             (Some (comentario_precio t ?st (length ?vals)))
             (Some ''flag_precio_chunks_mean_cos'') (Some ''pipeline'') None = Inr (r, s'')"
      and a: "assignments s'' lic ''red_precio'' = [r]" "fl_valor r = valor_flag t ?st"
      by blast
    from False sf have "evaluate_top s lic mn t top_rows = Inr (?res, s'')"
      by (simp add: evaluate_top_def Let_def)
    with a False show ?thesis by simp
  qed
qed

lemma robust_stats_n: "rs_n (robust_stats vals t) = length vals"
  by (simp add: robust_stats_def Let_def)

text \<open>
  The scored candidates of step 3 are rows of the store other than the target, each with its
  own stored value (\<^verbatim>\<open>nan\<close> for none), whatever their vectors and scores are.
\<close>

lemma scored_loop_rows:
  "scored_loop t_vec t_meta pen docvecs cands = Inr scored \<Longrightarrow>
   \<forall>x \<in> set scored. \<exists>row \<in> set cands. fst x = lic_id row
      \<and> snd (snd x) = (case cuantia row of None \<Rightarrow> NaN | Some c \<Rightarrow> float_of c)"
proof (induction cands arbitrary: scored)
  case Nil
  then show ?case by simp
next
  case (Cons tup cands)
  show ?case
  proof (cases "map_of docvecs (lic_id tup)")
    case None
    with Cons.prems have "scored_loop t_vec t_meta pen docvecs cands = Inr scored" by simp
    from Cons.IH [OF this] show ?thesis by auto
  next
    case (Some c_vec)
    with Cons.prems obtain d rest where
      rest: "scored_loop t_vec t_meta pen docvecs cands = Inr rest"
      and sc: "scored = (lic_id tup, d + penalty t_meta tup pen,
                 (case cuantia tup of None \<Rightarrow> NaN | Some c \<Rightarrow> float_of c)) # rest"
      by (auto split: sum.splits)
    from Cons.IH [OF rest] sc show ?thesis by auto
  qed
qed

lemma candidate_headers_rows:
  "row \<in> set (fetch_candidate_headers s lic filt) \<Longrightarrow>
     row \<in> set (licitaciones s) \<and> lic_id row \<noteq> lic"
  unfolding fetch_candidate_headers_def by (auto dest: in_set_takeD)

text \<open>
  What a run of the detector that returns has done: one of the two early exits, or steps 4
  and 5 on its neighbours, which are rows of the store other than the target, with their
  stored values.
\<close>

lemma precio_stages:
  assumes u: "unique_rows s"
    and run: "run_flag_precio_for_one s lic top_k mn pen = Inr (res, s')"
  shows "\<exists>s1 t. ensure_flag_precio s = Inr s1 \<and> unique_rows s1
     \<and> licitaciones s1 = licitaciones s
     \<and> lic \<in> set (map lic_id (licitaciones s1))
     \<and> ((\<exists>c f. skip_result s1 lic c f
                 \<lparr>licitacion_id = lic, n_comparables = 0, method_tag = ''skip'',
                  stats = empty_stats, target_cuantia = t, neighbor_ids = []\<rparr> = Inr (res, s'))
        \<or> (\<exists>top_rows :: (int \<times> real \<times> pyfloat) list.
              evaluate_top s1 lic mn t top_rows = Inr (res, s')
              \<and> (\<forall>x \<in> set top_rows. \<exists>row \<in> set (licitaciones s). fst x = lic_id row
                    \<and> lic_id row \<noteq> lic
                    \<and> snd (snd x) = (case cuantia row of None \<Rightarrow> NaN
                                      | Some c \<Rightarrow> float_of c))))"
proof -
  from ensure_flag_precio_ok [OF u] obtain s1 where
    e: "ensure_flag_precio s = Inr s1" and u1: "unique_rows s1"
    and fr: "licitaciones s1 = licitaciones s"
    by blast
  from run obtain target where
    ex: "find (\<lambda>l. lic_id l = lic) (licitaciones s) = Some target"
    by (auto simp: run_flag_precio_for_one_def split: option.splits)
  from find_known [OF ex] fr have known: "lic \<in> set (map lic_id (licitaciones s1))" by simp
  let ?t = "m_cuantia (fetch_target_meta s1 lic)"
  let ?skip = "\<lparr>licitacion_id = lic, n_comparables = 0, method_tag = ''skip'',
                stats = empty_stats, target_cuantia = ?t, neighbor_ids = []\<rparr>"
  from run ex e consider
      (a) "skip_result s1 lic SinEmbedding ''flag_precio(skip)'' ?skip = Inr (res, s')"
    | (b) "skip_result s1 lic SinComparables ''flag_precio_chunks_mean_cos(skip)'' ?skip
             = Inr (res, s')"
    | (c) t_vec docvecs scored where
        "scored_loop t_vec (fetch_target_meta s1 lic) pen docvecs
           (fetch_candidate_headers s1 lic (fetch_target_meta s1 lic)) = Inr scored"
        "evaluate_neighbors s1 lic top_k mn ?t scored = Inr (res, s')"
    by (auto simp: run_flag_precio_for_one_def Let_def
        split: option.splits sum.splits if_splits)
  then show ?thesis
  proof cases
    case a
    with e u1 fr known show ?thesis by blast
  next
    case b
    with e u1 fr known show ?thesis by blast
  next
    case c
    let ?top_rows = "py_take (max top_k mn) (sort_key (\<lambda>x. fst (snd x)) scored)"
    from c(2) have ev: "evaluate_top s1 lic mn ?t ?top_rows = Inr (res, s')"
      by (simp add: evaluate_neighbors_def Let_def)
    have sub: "set ?top_rows \<subseteq> set scored"
      by (auto simp: py_take_def dest: in_set_takeD split: if_splits)
    have "\<forall>x \<in> set ?top_rows. \<exists>row \<in> set (licitaciones s). fst x = lic_id row
            \<and> lic_id row \<noteq> lic
            \<and> snd (snd x) = (case cuantia row of None \<Rightarrow> NaN | Some c \<Rightarrow> float_of c)"
    proof
      fix x assume "x \<in> set ?top_rows"
      with sub have "x \<in> set scored" by blast
      with scored_loop_rows [OF c(1)] obtain row where
        r: "row \<in> set (fetch_candidate_headers s1 lic (fetch_target_meta s1 lic))"
        and v: "fst x = lic_id row"
          "snd (snd x) = (case cuantia row of None \<Rightarrow> NaN | Some c \<Rightarrow> float_of c)"
        by blast
      from candidate_headers_rows [OF r] fr have "row \<in> set (licitaciones s)" "lic_id row \<noteq> lic"
        by simp_all
      with v show "\<exists>row \<in> set (licitaciones s). fst x = lic_id row \<and> lic_id row \<noteq> lic
            \<and> snd (snd x) = (case cuantia row of None \<Rightarrow> NaN | Some c \<Rightarrow> float_of c)"
        by blast
    qed
    with ev e u1 fr known show ?thesis by blast
  qed
qed

lemma precio_cases:
  assumes u: "unique_rows s"
    and run: "run_flag_precio_for_one s lic top_k mn pen = Inr (res, s')"
  shows "\<exists>r. assignments s' lic ''red_precio'' = [r] \<and>
     ((stats res = empty_stats \<and> fl_valor r = False
         \<and> (n_comparables res = 0 \<or> int (n_comparables res) < mn))
      \<or> (mn \<le> int (n_comparables res)
          \<and> (\<exists>vals. length vals = n_comparables res
                \<and> stats res = robust_stats vals
                     (case target_cuantia res of None \<Rightarrow> NaN | Some x \<Rightarrow> x))
          \<and> fl_valor r = valor_flag (target_cuantia res) (stats res)))"
proof -
  from precio_stages [OF u run] obtain s1 t where
    u1: "unique_rows s1" and known: "lic \<in> set (map lic_id (licitaciones s1))"
    and d: "(\<exists>c f. skip_result s1 lic c f
                 \<lparr>licitacion_id = lic, n_comparables = 0, method_tag = ''skip'',
                  stats = empty_stats, target_cuantia = t, neighbor_ids = []\<rparr> = Inr (res, s'))
        \<or> (\<exists>top_rows :: (int \<times> real \<times> pyfloat) list. evaluate_top s1 lic mn t top_rows = Inr (res, s'))"
    by blast
  from d show ?thesis
  proof
    assume "\<exists>c f. skip_result s1 lic c f
                 \<lparr>licitacion_id = lic, n_comparables = 0, method_tag = ''skip'',
                  stats = empty_stats, target_cuantia = t, neighbor_ids = []\<rparr> = Inr (res, s')"
    then obtain c f where sk: "skip_result s1 lic c f
                 \<lparr>licitacion_id = lic, n_comparables = 0, method_tag = ''skip'',
                  stats = empty_stats, target_cuantia = t, neighbor_ids = []\<rparr> = Inr (res, s')"
      by blast
    from skip_result_ok [OF u1 known, of c f
        "\<lparr>licitacion_id = lic, n_comparables = 0, method_tag = ''skip'',
          stats = empty_stats, target_cuantia = t, neighbor_ids = []\<rparr>"] sk
    show ?thesis by auto
  next
    assume "\<exists>top_rows :: (int \<times> real \<times> pyfloat) list. evaluate_top s1 lic mn t top_rows = Inr (res, s')"
    then obtain top_rows :: "(int \<times> real \<times> pyfloat) list" where
      ev: "evaluate_top s1 lic mn t top_rows = Inr (res, s')"
      by blast
    let ?vals = "map (\<lambda>x. snd (snd x)) (filter (\<lambda>x. \<not> isnan (snd (snd x))) top_rows)"
    from evaluate_top_returns [OF u1 known, of mn t top_rows] ev
    obtain r where a: "assignments s' lic ''red_precio'' = [r]"
      and tc: "target_cuantia res = t"
      and n: "n_comparables res = length (filter (\<lambda>x. \<not> isnan (snd (snd x))) top_rows)"
      and c: "(int (n_comparables res) < mn \<and> stats res = empty_stats \<and> fl_valor r = False)
        \<or> (mn \<le> int (n_comparables res)
            \<and> stats res = robust_stats ?vals (case t of None \<Rightarrow> NaN | Some x \<Rightarrow> x)
            \<and> fl_valor r = valor_flag t (stats res))"
      by auto
    from c show ?thesis
    proof
      assume "int (n_comparables res) < mn \<and> stats res = empty_stats \<and> fl_valor r = False"
      with a show ?thesis by simp
    next
      assume b: "mn \<le> int (n_comparables res)
            \<and> stats res = robust_stats ?vals (case t of None \<Rightarrow> NaN | Some x \<Rightarrow> x)
            \<and> fl_valor r = valor_flag t (stats res)"
      have "\<exists>vals. length vals = n_comparables res
                \<and> stats res = robust_stats vals
                     (case target_cuantia res of None \<Rightarrow> NaN | Some x \<Rightarrow> x)"
        by (rule exI [of _ ?vals]) (use b n tc in simp)
      with a b tc show ?thesis by simp
    qed
  qed
qed

text \<open>
  C6.  For an entity that exists and none of whose chunks holds a usable vector, on a store
  that satisfies the schema's unique constraints, \<^verbatim>\<open>run_flag_precio_for_one\<close> returns
  (it raises nothing), with \<^verbatim>\<open>method = "skip"\<close>, \<^verbatim>\<open>n_comparables = 0\<close>, the all-zero
  statistics and no neighbours; afterwards the pair (entity, \<^verbatim>\<open>red_precio\<close>) has exactly
  one assignment row, with the value \<^verbatim>\<open>False\<close> and the "no embedding" comment; and
  the log has grown by exactly the one entry of that write.
\<close>

theorem no_embedding_skips:
  assumes "unique_rows s"
    and "find (\<lambda>l. lic_id l = lic) (licitaciones s) = Some target"
    and "\<forall>c \<in> set (chunks s). ch_licitacion_id c = lic
               \<longrightarrow> to_np_vec (ch_embedding_vec c) = None"
  shows "\<exists>r s'. run_flag_precio_for_one s lic top_k min_neighbors penalty_estado =
        Inr (\<lparr>licitacion_id = lic, n_comparables = 0, method_tag = ''skip'',
              stats = empty_stats, target_cuantia = map_option float_of (cuantia target),
              neighbor_ids = []\<rparr>, s')
     \<and> assignments s' lic ''red_precio'' = [r]
     \<and> fl_valor r = False \<and> fl_comentario r = Some SinEmbedding
     \<and> flags_log_tbl s' = flags_log_tbl s @
          [\<lparr>lg_flags_licitaciones_id = fl_id r,
            lg_cambio = (False, SinEmbedding, ''flag_precio(skip)''),
            lg_fecha = now s, lg_usuario = ''pipeline''\<rparr>]"
  using assms by (rule no_embedding_run)

theorem no_embedding_skips_witness:
  "unique_rows demo_store
   \<and> find (\<lambda>l. lic_id l = 3) (licitaciones demo_store) = Some (demo_lic 3)
   \<and> chunks demo_store = []
   \<and> (\<exists>r s'. run_flag_precio_for_one demo_store 3 50 10 (1 / 10) =
        Inr (\<lparr>licitacion_id = 3, n_comparables = 0, method_tag = ''skip'',
              stats = empty_stats, target_cuantia = Some (Fin 1000), neighbor_ids = []\<rparr>, s')
     \<and> assignments s' 3 ''red_precio'' = [r]
     \<and> fl_valor r = False \<and> fl_comentario r = Some SinEmbedding
     \<and> length (flags_log_tbl s') = 1)"
proof -
  have u: "unique_rows demo_store" by (simp add: unique_rows_def demo_store_def)
  have f: "find (\<lambda>l. lic_id l = 3) (licitaciones demo_store) = Some (demo_lic 3)"
    by (simp add: demo_store_def demo_lic_def)
  have c: "chunks demo_store = []" by (simp add: demo_store_def)
  then have n: "\<forall>c \<in> set (chunks demo_store). ch_licitacion_id c = 3
               \<longrightarrow> to_np_vec (ch_embedding_vec c) = None" by simp
  have l: "flags_log_tbl demo_store = []" by (simp add: demo_store_def)
  have q: "map_option float_of (cuantia (demo_lic 3)) = Some (Fin 1000)"
    by (simp add: demo_lic_def rnd_1000)
  from no_embedding_skips [OF u f n, of 50 10 "1 / 10"] l q
  have "\<exists>r s'. run_flag_precio_for_one demo_store 3 50 10 (1 / 10) =
        Inr (\<lparr>licitacion_id = 3, n_comparables = 0, method_tag = ''skip'',
              stats = empty_stats, target_cuantia = Some (Fin 1000), neighbor_ids = []\<rparr>, s')
     \<and> assignments s' 3 ''red_precio'' = [r]
     \<and> fl_valor r = False \<and> fl_comentario r = Some SinEmbedding
     \<and> length (flags_log_tbl s') = 1"
    by auto
  with u f c show ?thesis by simp
qed

text \<open>
  C9.  When the orchestrator runs the price flow, the \<^verbatim>\<open>flag_applied\<close> it returns is
  computed from the detector's result: the target value is present and lies below the
  lower fence, above the upper fence, or the absolute z-score is at least 2.8.  So whenever
  the detector returns the all-zero statistics and a target value that is present and
  greater than zero, \<^verbatim>\<open>flag_applied\<close> is \<^verbatim>\<open>True\<close> while the value the detector
  persisted for the pair is \<^verbatim>\<open>False\<close>.
\<close>

theorem flag_applied_recomputed:
  assumes u: "unique_rows s"
    and h: "HAS_PRECIO cfg"
    and run: "run_flag_precio_for_one s lic TOP_K MIN_NEIGHBORS_FOR_STATS PENALTY_ESTADO
                = Inr (res, s')"
  shows "\<exists>en. run_one_flow cfg s lic ''red_precio'' j = Inr (en, s')
     \<and> map_option r_flag_applied (e_result en) =
         Some (Some (case target_cuantia res of
                       None \<Rightarrow> False
                     | Some t \<Rightarrow> pf_less t (rs_lower (stats res))
                                 \<or> pf_less (rs_upper (stats res)) t
                                 \<or> pf_le (rnd (28 / 10)) (fabs (rs_z_mad (stats res)))))
     \<and> (stats res = empty_stats \<and> (\<exists>t. target_cuantia res = Some t \<and> pf_less (Fin 0) t)
          \<longrightarrow> map_option r_flag_applied (e_result en) = Some (Some True)
              \<and> (\<exists>r. assignments s' lic ''red_precio'' = [r] \<and> fl_valor r = False))"
proof -
  let ?en = "\<lparr>e_flow = ''red_precio'', e_ok = None, e_error = None,
              e_result = Some
                \<lparr>r_ok = True, r_flow = None, r_reason = None,
                 r_flag_applied = Some (precio_flag_applied res), r_comment = None,
                 r_detail = Some (DetailPrecio (method_tag res) (n_comparables res)
                                    (rs_median (stats res)) (rs_z_mad (stats res))
                                    (rs_lower (stats res)) (rs_upper (stats res))
                                    (neighbor_ids res))\<rparr>\<rparr>"
  from h run have one: "run_one_flow cfg s lic ''red_precio'' j = Inr (?en, s')"
    by (simp add: run_one_flow_def)
  have fa: "map_option r_flag_applied (e_result ?en) =
         Some (Some (case target_cuantia res of
                       None \<Rightarrow> False
                     | Some t \<Rightarrow> pf_less t (rs_lower (stats res))
                                 \<or> pf_less (rs_upper (stats res)) t
                                 \<or> pf_le (rnd (28 / 10)) (fabs (rs_z_mad (stats res)))))"
    by (simp add: precio_flag_applied_def)
  have skip: "stats res = empty_stats \<and> (\<exists>t. target_cuantia res = Some t \<and> pf_less (Fin 0) t)
          \<longrightarrow> map_option r_flag_applied (e_result ?en) = Some (Some True)
              \<and> (\<exists>r. assignments s' lic ''red_precio'' = [r] \<and> fl_valor r = False)"
  proof
    assume a: "stats res = empty_stats \<and> (\<exists>t. target_cuantia res = Some t \<and> pf_less (Fin 0) t)"
    then obtain t where e: "stats res = empty_stats" and t: "target_cuantia res = Some t"
      and pos: "pf_less (Fin 0) t" by blast
    from e t pos have "precio_flag_applied res"
      by (simp add: precio_flag_applied_def empty_stats_def)
    moreover from precio_cases [OF u run] obtain r where
      r: "assignments s' lic ''red_precio'' = [r]"
      and d: "(stats res = empty_stats \<and> fl_valor r = False
                \<and> (n_comparables res = 0 \<or> int (n_comparables res) < MIN_NEIGHBORS_FOR_STATS))
          \<or> (MIN_NEIGHBORS_FOR_STATS \<le> int (n_comparables res)
              \<and> (\<exists>vals. length vals = n_comparables res
                    \<and> stats res = robust_stats vals
                         (case target_cuantia res of None \<Rightarrow> NaN | Some x \<Rightarrow> x))
              \<and> fl_valor r = valor_flag (target_cuantia res) (stats res))"
      by blast
    have "fl_valor r = False"
    proof (rule disjE [OF d])
      assume "stats res = empty_stats \<and> fl_valor r = False
                \<and> (n_comparables res = 0 \<or> int (n_comparables res) < MIN_NEIGHBORS_FOR_STATS)"
      then show ?thesis by simp
    next
      assume "MIN_NEIGHBORS_FOR_STATS \<le> int (n_comparables res)
              \<and> (\<exists>vals. length vals = n_comparables res
                    \<and> stats res = robust_stats vals
                         (case target_cuantia res of None \<Rightarrow> NaN | Some x \<Rightarrow> x))
              \<and> fl_valor r = valor_flag (target_cuantia res) (stats res)"
      then have m: "MIN_NEIGHBORS_FOR_STATS \<le> int (n_comparables res)"
        and "\<exists>vals. length vals = n_comparables res
                    \<and> stats res = robust_stats vals
                         (case target_cuantia res of None \<Rightarrow> NaN | Some x \<Rightarrow> x)"
        by simp_all
      then obtain vals where len: "length vals = n_comparables res"
        and st: "stats res = robust_stats vals
                   (case target_cuantia res of None \<Rightarrow> NaN | Some x \<Rightarrow> x)"
        by blast
      from m len have "10 \<le> int (length vals)" by (simp add: MIN_NEIGHBORS_FOR_STATS_def)
      moreover from e st have "rs_n empty_stats =
          rs_n (robust_stats vals (case target_cuantia res of None \<Rightarrow> NaN | Some x \<Rightarrow> x))"
        by simp
      then have "rs_n empty_stats = length vals" by (simp only: robust_stats_n)
      ultimately have False by (simp add: empty_stats_def)
      then show ?thesis ..
    qed
    ultimately show "map_option r_flag_applied (e_result ?en) = Some (Some True)
              \<and> (\<exists>r. assignments s' lic ''red_precio'' = [r] \<and> fl_valor r = False)"
      using r by simp
  qed
  from one fa skip show ?thesis by blast
qed

text \<open>Entity 1 of the demo store: no chunks, and the value 1000.\<close>

theorem flag_applied_recomputed_witness:
  "unique_rows demo_store \<and> HAS_PRECIO demo_config
   \<and> (\<exists>en s' r. run_one_flow demo_config demo_store 1 ''red_precio'' None = Inr (en, s')
        \<and> map_option r_flag_applied (e_result en) = Some (Some True)
        \<and> assignments s' 1 ''red_precio'' = [r] \<and> fl_valor r = False)"
proof -
  have u: "unique_rows demo_store" by (simp add: unique_rows_def demo_store_def)
  have h: "HAS_PRECIO demo_config" by (simp add: demo_config_def)
  have f: "find (\<lambda>l. lic_id l = 1) (licitaciones demo_store) = Some (demo_lic 1)"
    by (simp add: demo_store_def demo_lic_def)
  have n: "\<forall>c \<in> set (chunks demo_store). ch_licitacion_id c = 1
               \<longrightarrow> to_np_vec (ch_embedding_vec c) = None" by (simp add: demo_store_def)
  from no_embedding_run [OF u f n, of TOP_K MIN_NEIGHBORS_FOR_STATS PENALTY_ESTADO]
  obtain s' where run: "run_flag_precio_for_one demo_store 1 TOP_K MIN_NEIGHBORS_FOR_STATS
        PENALTY_ESTADO =
        Inr (\<lparr>licitacion_id = 1, n_comparables = 0, method_tag = ''skip'',
              stats = empty_stats, target_cuantia = map_option float_of (cuantia (demo_lic 1)),
              neighbor_ids = []\<rparr>, s')"
    by blast
  from flag_applied_recomputed [OF u h run, of None]
  have "\<exists>en r. run_one_flow demo_config demo_store 1 ''red_precio'' None = Inr (en, s')
        \<and> map_option r_flag_applied (e_result en) = Some (Some True)
        \<and> assignments s' 1 ''red_precio'' = [r] \<and> fl_valor r = False"
    by (auto simp: demo_lic_def rnd_1000)
  with u h show ?thesis by blast
qed

text \<open>
  C4.  Steps 4 and 5 of the detector, for every list \<open>top_rows\<close> of neighbours, on a store that
  satisfies the unique constraints and for an entity that exists: when at least \<open>mn\<close> of
  the neighbours have a value (one that is not \<^verbatim>\<open>nan\<close>), the step returns; the median, the
  MAD and the quartiles are those of these values; the z-score is
  \<open>0.6745 * (target - median) / MAD\<close>, and 0 when the MAD is 0 or the target is missing or
  not finite; the fences are \<open>Q1 - 1.5 * IQR\<close> and \<open>Q3 + 1.5 * IQR\<close>; and the persisted
  flag is \<^verbatim>\<open>False\<close> when the target is missing or not finite, and otherwise \<^verbatim>\<open>True\<close>
  exactly when the target lies outside the fences or the absolute z-score is at least 2.8.
  The arithmetic is that of Python's floats: \<open>rnd (6745 / 10000)\<close> and \<open>rnd (28 / 10)\<close>
  are the literals \<^verbatim>\<open>0.6745\<close> and \<^verbatim>\<open>2.8\<close>, \<open>3 / 2\<close> is the literal \<^verbatim>\<open>1.5\<close>, and every
  operation rounds.
\<close>

theorem statistics_step:
  assumes u: "unique_rows s"
    and ex: "lic \<in> set (map lic_id (licitaciones s))"
    and reached: "mn \<le> int (length (filter (\<lambda>x. \<not> isnan (snd (snd x))) top_rows))"
  shows "\<exists>res s' r.
       evaluate_top s lic mn t top_rows = Inr (res, s')
     \<and> neighbor_ids res = map fst (filter (\<lambda>x. \<not> isnan (snd (snd x))) top_rows)
     \<and> assignments s' lic ''red_precio'' = [r]
     \<and> (let vals = map (\<lambda>x. snd (snd x)) (filter (\<lambda>x. \<not> isnan (snd (snd x))) top_rows);
            target = (case t of None \<Rightarrow> NaN | Some x \<Rightarrow> x);
            st = stats res
        in (vals \<noteq> [] \<longrightarrow>
              rs_median st = np_median vals
            \<and> rs_mad st = np_median (map (\<lambda>x. fabs (fsub x (np_median vals))) vals)
            \<and> rs_q1 st = np_percentile vals 25 \<and> rs_q3 st = np_percentile vals 75)
         \<and> rs_z_mad st =
             (if rs_mad st = Fin 0 \<or> \<not> isfinite target then Fin 0
              else fdiv (fmul (rnd (6745 / 10000)) (fsub target (rs_median st))) (rs_mad st))
         \<and> rs_iqr st = fsub (rs_q3 st) (rs_q1 st)
         \<and> rs_lower st = fsub (rs_q1 st) (fmul (Fin (3 / 2)) (rs_iqr st))
         \<and> rs_upper st = fadd (rs_q3 st) (fmul (Fin (3 / 2)) (rs_iqr st))
         \<and> fl_valor r =
             (case t of
                None \<Rightarrow> False
              | Some x \<Rightarrow> isfinite x
                  \<and> (pf_less x (rs_lower st) \<or> pf_less (rs_upper st) x
                      \<or> pf_le (rnd (28 / 10)) (fabs (rs_z_mad st)))))"
proof -
  let ?vals = "map (\<lambda>x. snd (snd x)) (filter (\<lambda>x. \<not> isnan (snd (snd x))) top_rows)"
  let ?target = "case t of None \<Rightarrow> NaN | Some x \<Rightarrow> x"
  from evaluate_top_returns [OF u ex, of mn t top_rows] obtain res s' r where
    ev: "evaluate_top s lic mn t top_rows = Inr (res, s')"
    and n: "n_comparables res = length (filter (\<lambda>x. \<not> isnan (snd (snd x))) top_rows)"
    and ids: "neighbor_ids res = map fst (filter (\<lambda>x. \<not> isnan (snd (snd x))) top_rows)"
    and a: "assignments s' lic ''red_precio'' = [r]"
    and c: "(int (n_comparables res) < mn \<and> stats res = empty_stats \<and> fl_valor r = False)
        \<or> (mn \<le> int (n_comparables res)
            \<and> stats res = robust_stats ?vals ?target
            \<and> fl_valor r = valor_flag t (stats res))"
    by blast
  from reached n have "\<not> int (n_comparables res) < mn" by simp
  with c have st: "stats res = robust_stats ?vals ?target"
    and v: "fl_valor r = valor_flag t (stats res)"
    by simp_all
  have centre: "?vals \<noteq> [] \<longrightarrow>
              rs_median (stats res) = np_median ?vals
            \<and> rs_mad (stats res) = np_median (map (\<lambda>x. fabs (fsub x (np_median ?vals))) ?vals)
            \<and> rs_q1 (stats res) = np_percentile ?vals 25
            \<and> rs_q3 (stats res) = np_percentile ?vals 75"
    unfolding st by (simp add: robust_stats_def Let_def)
  have z: "rs_z_mad (stats res) =
             (if rs_mad (stats res) = Fin 0 \<or> \<not> isfinite ?target then Fin 0
              else fdiv (fmul (rnd (6745 / 10000)) (fsub ?target (rs_median (stats res))))
                     (rs_mad (stats res)))"
    unfolding st by (simp add: robust_stats_def Let_def)
  have fences: "rs_iqr (stats res) = fsub (rs_q3 (stats res)) (rs_q1 (stats res))"
    "rs_lower (stats res) = fsub (rs_q1 (stats res)) (fmul (Fin (3 / 2)) (rs_iqr (stats res)))"
    "rs_upper (stats res) = fadd (rs_q3 (stats res)) (fmul (Fin (3 / 2)) (rs_iqr (stats res)))"
    unfolding st by (simp_all add: robust_stats_def Let_def)
  have flag: "fl_valor r =
             (case t of
                None \<Rightarrow> False
              | Some x \<Rightarrow> isfinite x
                  \<and> (pf_less x (rs_lower (stats res)) \<or> pf_less (rs_upper (stats res)) x
                      \<or> pf_le (rnd (28 / 10)) (fabs (rs_z_mad (stats res)))))"
    unfolding v by (auto simp: valor_flag_def Z_MAD_THRESHOLD_def Let_def split: option.splits)
  from ev ids a centre z fences flag show ?thesis
    unfolding Let_def by blast
qed

text \<open>
  Entity 1 of the demo store with the target value 1000000 and the demo neighbours: ten of
  them have a value, nine times 100, so the median is 100, the MAD 0 and with it the
  z-score 0, both fences are 100, and the target lies above the upper one.
\<close>

lemma demo_kept:
  "filter (\<lambda>x. \<not> isnan (snd (snd x))) demo_scored =
     [(12, 3 / 10, Fin 100), (11, 1 / 20, Fin 1000000),
      (14, 2 / 5, Fin 100), (15, 1 / 5, Fin 100), (16, 1 / 2, Fin 100), (17, 3 / 5, Fin 100),
      (18, 7 / 10, Fin 100), (19, 4 / 5, Fin 100), (20, 9 / 10, Fin 100), (21, 1, Fin 100)]"
  by (simp add: demo_scored_def)

lemma demo_stats:
  "robust_stats [Fin 100, Fin 1000000, Fin 100, Fin 100, Fin 100, Fin 100, Fin 100, Fin 100,
       Fin 100, Fin 100] (Fin 1000000) =
     \<lparr>rs_median = Fin 100, rs_mad = Fin 0, rs_z_mad = Fin 0, rs_q1 = Fin 100, rs_q3 = Fin 100,
      rs_iqr = Fin 0, rs_lower = Fin 100, rs_upper = Fin 100, rs_n = 10\<rparr>"
  by (simp add: stats_eval float_eval cong: let_weak_cong)

theorem statistics_step_witness:
  "unique_rows demo_store \<and> 1 \<in> set (map lic_id (licitaciones demo_store))
   \<and> 10 \<le> int (length (filter (\<lambda>x. \<not> isnan (snd (snd x))) demo_scored))
   \<and> (\<exists>res s' r.
         evaluate_top demo_store 1 10 (Some (Fin 1000000)) demo_scored = Inr (res, s')
       \<and> neighbor_ids res = [12, 11, 14, 15, 16, 17, 18, 19, 20, 21]
       \<and> rs_median (stats res) = Fin 100 \<and> rs_mad (stats res) = Fin 0
       \<and> rs_z_mad (stats res) = Fin 0
       \<and> rs_lower (stats res) = Fin 100 \<and> rs_upper (stats res) = Fin 100
       \<and> assignments s' 1 ''red_precio'' = [r] \<and> fl_valor r = True)"
proof -
  have u: "unique_rows demo_store" by (simp add: unique_rows_def demo_store_def)
  have ex: "1 \<in> set (map lic_id (licitaciones demo_store))"
    by (simp add: demo_store_def demo_lic_def)
  have reached: "10 \<le> int (length (filter (\<lambda>x. \<not> isnan (snd (snd x))) demo_scored))"
    by (simp add: demo_kept)
  from statistics_step [OF u ex reached, of "Some (Fin 1000000)"] obtain res s' r where
    ev: "evaluate_top demo_store 1 10 (Some (Fin 1000000)) demo_scored = Inr (res, s')"
    and ids: "neighbor_ids res = map fst (filter (\<lambda>x. \<not> isnan (snd (snd x))) demo_scored)"
    and a: "assignments s' 1 ''red_precio'' = [r]"
    and f: "fl_valor r =
             (isfinite (Fin 1000000)
                  \<and> (pf_less (Fin 1000000) (rs_lower (stats res))
                      \<or> pf_less (rs_upper (stats res)) (Fin 1000000)
                      \<or> pf_le (rnd (28 / 10)) (fabs (rs_z_mad (stats res)))))"
    unfolding Let_def by auto
  from ev have "stats res = robust_stats
      (map (\<lambda>x. snd (snd x)) (filter (\<lambda>x. \<not> isnan (snd (snd x))) demo_scored)) (Fin 1000000)"
    by (auto simp: evaluate_top_def demo_kept Let_def split: sum.splits)
  then have st: "stats res =
     \<lparr>rs_median = Fin 100, rs_mad = Fin 0, rs_z_mad = Fin 0, rs_q1 = Fin 100, rs_q3 = Fin 100,
      rs_iqr = Fin 0, rs_lower = Fin 100, rs_upper = Fin 100, rs_n = 10\<rparr>"
    by (simp add: demo_kept demo_stats)
  from f st have "fl_valor r = True" by simp
  with u ex reached ev ids a st show ?thesis by (auto simp: demo_kept)
qed

text \<open>
  Rounding decides at the threshold.  For the ten close values and the target 86.60 the
  binary64 MAD is 13.490000000000002 and the z-score 2.799999999999999, just below the
  binary64 number of the literal \<^verbatim>\<open>2.8\<close>; the target lies inside the fences, and the flag
  is \<^verbatim>\<open>False\<close>.
\<close>

lemma close_floats:
  "map float_of close_values =
     [Fin (1204009212879831 / 70368744177664), Fin (1204009212879831 / 70368744177664),
      Fin (1204009212879831 / 70368744177664), Fin (4306567143673037 / 140737488355328),
      Fin (4306567143673037 / 140737488355328), Fin (4306567143673037 / 140737488355328),
      Fin 60, Fin 60, Fin 60, Fin 60]"
  by (simp add: close_values_def float_eval cong: let_weak_cong)

lemma close_to_threshold:
  "robust_stats (map float_of close_values) (float_of (Num (866 / 10))) =
     \<lparr>rs_median = Fin (4306567143673037 / 140737488355328),
      rs_mad = Fin (1898548717913375 / 140737488355328),
      rs_z_mad = Fin (1576259869579673 / 562949953421312),
      rs_q1 = Fin (1441327802619003 / 70368744177664), rs_q3 = Fin 60,
      rs_iqr = Fin (2780796848040837 / 70368744177664),
      rs_lower = Fin (- 5459734938884505 / 140737488355328),
      rs_upper = Fin (1049164990340137 / 8796093022208), rs_n = 10\<rparr>
   \<and> Z_MAD_THRESHOLD = Fin (3152519739159347 / 1125899906842624)
   \<and> \<not> valor_flag (Some (float_of (Num (866 / 10))))
         (robust_stats (map float_of close_values) (float_of (Num (866 / 10))))"
  by (simp add: close_floats stats_eval float_eval cong: let_weak_cong)

text \<open>
  The whole detector on the vector store, with three neighbours required: the target 1 and
  its neighbours 2, 3 and 4 of the values 100, 200 and 400.  The median is 200, the MAD 100,
  the z-score \<open>0.6745 * 800 / 100\<close>, which is 5.396 in binary64, and the fences are -75 and
  525.
\<close>

lemmas precio_eval = run_flag_precio_for_one_def ensure_flag_precio_def fetch_target_docvec_def
  pooled_def chunk_rows_def fetch_target_meta_def skip_result_def List.map_filter_def
  MAX_TARGET_CHUNKS_def MAX_CANDIDATES_def MAX_CAND_PER_LIC_CHUNKS_def empty_stats_def
  fetch_candidate_headers_def STRICT_FILTER_MODALIDAD_def STRICT_FILTER_ACT_ECON_def
  truthy_def to_np_vec_def l2_normalize_def vstack_mean_def cosine_distance_def penalty_def
  strip_def is_space_def evaluate_neighbors_def evaluate_top_def py_take_def
  set_flag_for_licitacion_def ensure_flag_by_codigo_def upsert_flag_def next_id_def str_or_def
  vec_store_def vec_lic_def vec_chunk_def demo_store_def demo_lic_def

lemma vec_run:
  "map_sum id fst (run_flag_precio_for_one vec_store 1 50 3 (1 / 10)) =
     Inr \<lparr>licitacion_id = 1, n_comparables = 3, method_tag = ''chunks_mean_cos'',
          stats = \<lparr>rs_median = Fin 200, rs_mad = Fin 100,
                   rs_z_mad = Fin (6075355897322799 / 1125899906842624),
                   rs_q1 = Fin 150, rs_q3 = Fin 300, rs_iqr = Fin 150,
                   rs_lower = Fin (- 75), rs_upper = Fin 525, rs_n = 3\<rparr>,
          target_cuantia = Some (Fin 1000), neighbor_ids = [2, 3, 4]\<rparr>"
  by (simp add: precio_eval stats_eval float_eval cong: let_weak_cong)

end
